theory Spec2Isabelle
  imports Main "HOL-Library.Word"
begin

section \<open>Job record model (jobs.ts)\<close>

text \<open>
  The transaction job queue of the REST server: the job data and result types, the
  processor \<open>processTransactionJob\<close> that the worker runs, the enqueue helper
  \<open>addTransactionJob\<close> and the read side \<open>getJob\<close>, \<open>getAllJobs\<close>,
  \<open>getJobSummary\<close>. A \<open>Buffer\<close> is a sequence of bytes; an optional field of a
  TypeScript type is an \<open>option\<close>.
\<close>

type_synonym Buffer = "8 word list"

record JobData =
  mspId :: string
  transactionName :: string
  submit :: bool
  transactionArgs :: "string list"
  transactionState :: "Buffer option"
  transactionIds :: "string list"

record JobResult =
  transactionPayload :: "string option"
  transactionError :: "string option"

text \<open>
  \<open>JobSummary\<close>: the fields \<open>name\<close>, \<open>state\<close>, \<open>attempts\<close> and
  \<open>transactionIds\<close> carry the suffix \<open>_summary\<close> here, since a record field is a
  constant of the theory and the job and its data have fields of the same names. The
  optional \<open>result\<close> is set to \<open>job.returnvalue\<close>, which may itself be null: the outer
  \<open>option\<close> says whether the field is set, the inner one is the value assigned.
\<close>

record JobSummary =
  jobId :: string
  name_summary :: string
  state_summary :: string
  attempts_summary :: nat
  transactionIds_summary :: "string list"
  result :: "JobResult option option"

text \<open>\<open>JobNotFoundError(message, jobId)\<close>, and the plain \<open>Error(message)\<close>.\<close>

datatype JobError = JobNotFoundError string string | Error string

section \<open>Configuration and queue options\<close>

datatype BackoffType = Fixed | Exponential

record BackoffOptions =
  type_backoff :: BackoffType
  delay :: int

record JobsOptions =
  attempts :: int
  backoff :: BackoffOptions
  removeOnComplete :: int
  removeOnFail :: int

record ConnectionOptions =
  port :: int
  host :: string
  username :: "string option"
  password :: "string option"

text \<open>The values of \<open>config.ts\<close> that \<open>jobs.ts\<close> and \<open>main\<close> read.\<close>

record Config =
  JOB_QUEUE_NAME :: string
  redisPort :: int
  redisHost :: string
  redisUsername :: "string option"
  redisPassword :: "string option"
  submitJobAttempts :: int
  submitJobBackoffType :: BackoffType
  submitJobBackoffDelay :: int
  maxCompletedSubmitJobs :: int
  maxFailedSubmitJobs :: int
  submitJobConcurrency :: int
  submitJobQueueScheduler :: bool

text \<open>
  Modelled from the spec: \<open>config.ts\<close> is not among the sources (only its test suite
  is). The defaults are the ones the specification lists (attempt limit 5, backoff
  \<open>fixed\<close> with base delay 3000 ms, worker concurrency 5, retention caps 1000 each,
  scheduler enabled), which are also the values the test suite expects when no
  environment variable is set (Redis on \<open>localhost:6379\<close>, no user name or password).
  The queue name is a constant of \<open>config.ts\<close> that neither the specification nor the
  tests give: it is a parameter.
\<close>

definition defaultConfig :: "string \<Rightarrow> Config" where
  "defaultConfig queueName =
     \<lparr> JOB_QUEUE_NAME = queueName,
       redisPort = 6379,
       redisHost = ''localhost'',
       redisUsername = None,
       redisPassword = None,
       submitJobAttempts = 5,
       submitJobBackoffType = Fixed,
       submitJobBackoffDelay = 3000,
       maxCompletedSubmitJobs = 1000,
       maxFailedSubmitJobs = 1000,
       submitJobConcurrency = 5,
       submitJobQueueScheduler = True \<rparr>"

definition connection :: "Config \<Rightarrow> ConnectionOptions" where
  "connection cfg =
     \<lparr> port = redisPort cfg, host = redisHost cfg,
       username = redisUsername cfg, password = redisPassword cfg \<rparr>"

section \<open>Jobs and the queue\<close>

text \<open>
  Modelled from the spec: the job entity is the queue library's \<open>Job\<close>, which is not
  declared under the sources. Its states are the five of the specification, with the
  strings \<open>job.getState()\<close> reports for them; \<open>isCompleted\<close> and \<open>isFailed\<close> read
  the same state. Its fields are the ones the source reads: \<open>id\<close> (optional),
  \<open>name\<close>, \<open>data\<close> (the source guards against its absence), \<open>opts\<close>,
  \<open>attemptsMade\<close> and \<open>returnvalue\<close> (null until a processor has returned).
\<close>

datatype JobState = Waiting | Delayed | Active | Completed | Failed

fun stateName :: "JobState \<Rightarrow> string" where
  "stateName Waiting = ''waiting''"
| "stateName Delayed = ''delayed''"
| "stateName Active = ''active''"
| "stateName Completed = ''completed''"
| "stateName Failed = ''failed''"

record Job =
  id_job :: "string option"
  name :: string
  data :: "JobData option"
  opts :: JobsOptions
  attemptsMade :: nat
  returnvalue :: "JobResult option"
  jobState :: JobState

definition getState :: "Job \<Rightarrow> string" where
  "getState job = stateName (jobState job)"

definition isCompleted :: "Job \<Rightarrow> bool" where
  "isCompleted job = (jobState job = Completed)"

definition isFailed :: "Job \<Rightarrow> bool" where
  "isFailed job = (jobState job = Failed)"

text \<open>\<open>completed\<close> and \<open>failed\<close> are the terminal states.\<close>

definition terminal :: "Job \<Rightarrow> bool" where
  "terminal job = (jobState job = Completed \<or> jobState job = Failed)"

record Queue =
  queueName :: string
  queueConnection :: ConnectionOptions
  defaultJobOptions :: JobsOptions
  jobs :: "Job list"
  jobCounter :: nat

record Worker =
  workerQueueName :: string
  workerConnection :: ConnectionOptions
  concurrency :: int

record QueueScheduler =
  schedulerQueueName :: string
  schedulerConnection :: ConnectionOptions

text \<open>\<open>initJobQueue\<close>, \<open>initJobQueueWorker\<close> (its options) and \<open>initJobQueueScheduler\<close>.\<close>

definition initJobQueue :: "Config \<Rightarrow> Queue" where
  "initJobQueue cfg =
     \<lparr> queueName = JOB_QUEUE_NAME cfg,
       queueConnection = connection cfg,
       defaultJobOptions =
         \<lparr> attempts = submitJobAttempts cfg,
           backoff = \<lparr> type_backoff = submitJobBackoffType cfg,
                       delay = submitJobBackoffDelay cfg \<rparr>,
           removeOnComplete = maxCompletedSubmitJobs cfg,
           removeOnFail = maxFailedSubmitJobs cfg \<rparr>,
       jobs = [],
       jobCounter = 0 \<rparr>"

definition initJobQueueWorker :: "Config \<Rightarrow> Worker" where
  "initJobQueueWorker cfg =
     \<lparr> workerQueueName = JOB_QUEUE_NAME cfg,
       workerConnection = connection cfg,
       concurrency = submitJobConcurrency cfg \<rparr>"

definition initJobQueueScheduler :: "Config \<Rightarrow> QueueScheduler" where
  "initJobQueueScheduler cfg =
     \<lparr> schedulerQueueName = JOB_QUEUE_NAME cfg,
       schedulerConnection = connection cfg \<rparr>"

text \<open>
  The part of \<open>main\<close> that sets up the job queue (``Initialising submit job queue''):
  the queue, the worker, and the scheduler only when
  \<open>config.submitJobQueueScheduler === true\<close>.
\<close>

record Runtime =
  jobQueue :: Queue
  jobQueueWorker :: Worker
  jobQueueScheduler :: "QueueScheduler option"

definition main_jobQueue :: "Config \<Rightarrow> Runtime" where
  "main_jobQueue cfg =
     \<lparr> jobQueue = initJobQueue cfg,
       jobQueueWorker = initJobQueueWorker cfg,
       jobQueueScheduler =
         (if submitJobQueueScheduler cfg = True then Some (initJobQueueScheduler cfg)
          else None) \<rparr>"

section \<open>Collaborators of the processor\<close>

text \<open>
  Modelled from the spec: \<open>RetryAction\<close> and \<open>getRetryAction\<close> are declared in
  \<open>errors.ts\<close>, which is not among the sources. The processor uses the members
  \<open>RetryAction.None\<close> (here \<open>RetryNone\<close>) and \<open>RetryAction.WithNewTransactionId\<close>;
  the remaining member is the action the specification calls \<open>SameInvocation\<close>. The
  classifier itself is a parameter of the model, together with the text \<open>`${err}`\<close>
  of an error and the UTF-8 decoder.
\<close>

datatype RetryAction = SameInvocation | WithNewTransactionId | RetryNone

record 'e Collaborators =
  getRetryAction :: "'e \<Rightarrow> RetryAction"
  errText :: "'e \<Rightarrow> string"
  utf8Decode :: "Buffer \<Rightarrow> string"

text \<open>
  The ledger as one attempt sees it: what \<open>submitTransaction\<close> and
  \<open>evatuateTransaction\<close> of \<open>fabric.ts\<close> answer for a contract, a transaction name and
  its arguments, either the result bytes or the error they throw.
\<close>

record ('c, 'e) Ledger =
  submitTransaction :: "'c \<Rightarrow> string \<Rightarrow> string list \<Rightarrow> 'e + Buffer"
  evatuateTransaction :: "'c \<Rightarrow> string \<Rightarrow> string list \<Rightarrow> 'e + Buffer"

text \<open>
  \<open>app.locals\<close>: \<open>main\<close> stores the pair of contracts of each organisation under its
  MSP id, and other objects (the chaincode metadata, the queue) under other keys;
  those have no \<open>contract\<close> property.
\<close>

datatype 'c LocalsValue = Contracts (contract: 'c) (qsccContract: 'c) | OtherLocal

type_synonym 'c Locals = "string \<rightharpoonup> 'c LocalsValue"

text \<open>\<open>app.locals[mspId]?.contract\<close>, with \<open>None\<close> for \<open>undefined\<close>.\<close>

definition lookupContract :: "'c Locals \<Rightarrow> string \<Rightarrow> 'c option" where
  "lookupContract locals m =
     (case locals m of
        None \<Rightarrow> None
      | Some OtherLocal \<Rightarrow> None
      | Some (Contracts c q) \<Rightarrow> Some c)"

text \<open>
  What an attempt does besides returning: the messages it logs and the calls it makes
  to the ledger.
\<close>

datatype 'c Effect =
    Log string
  | SubmitCall 'c string "string list"
  | EvaluateCall 'c string "string list"

fun isLedgerCall :: "'c Effect \<Rightarrow> bool" where
  "isLedgerCall (Log m) = False"
| "isLedgerCall (SubmitCall c n as) = True"
| "isLedgerCall (EvaluateCall c n as) = True"

text \<open>
  What the processor throws: the error of the ledger call, re-thrown, or the
  \<open>TypeError\<close> of reading \<open>job.data.mspId\<close> when \<open>job.data\<close> is undefined.
\<close>

datatype 'e Thrown = TypeError | Rethrown 'e

text \<open>
  The result of running the processor on a job: the job object as the processor leaves
  it, the effects, and the outcome (\<open>Inl\<close>: thrown, \<open>Inr\<close>: the returned
  \<open>JobResult\<close>).
\<close>

record ('c, 'e) Processed =
  jobAfter :: Job
  effects :: "'c Effect list"
  outcome :: "'e Thrown + JobResult"

section \<open>The processor\<close>

text \<open>
  \<open>processTransactionJob(app, job)\<close>. The calls that would create or deserialize a
  transaction and \<open>updateJobData\<close> are commented out in the source, so the two
  branches on \<open>job.data.transactionState\<close> only log, and the job object is returned as
  it came in on every path.
\<close>

definition processTransactionJob ::
  "'e Collaborators \<Rightarrow> ('c, 'e) Ledger \<Rightarrow> 'c Locals \<Rightarrow> Job \<Rightarrow> ('c, 'e) Processed" where
  "processTransactionJob col ledger locals job =
     (case data job of
        None \<Rightarrow>
          \<lparr> jobAfter = job, effects = [Log ''Processing job''], outcome = Inl TypeError \<rparr>
      | Some d \<Rightarrow>
          (case lookupContract locals (mspId d) of
             None \<Rightarrow>
               \<lparr> jobAfter = job,
                 effects = [Log ''Processing job'', Log ''Contract not found for MSP ID''],
                 outcome = Inr \<lparr> transactionPayload = None, transactionError = None \<rparr> \<rparr>
           | Some c \<Rightarrow>
               (let args = transactionArgs d;
                    logs =
                      [Log ''Processing job'',
                       (if transactionState d \<noteq> None
                        then Log ''Reusing previously saved transaction state''
                        else Log ''Using new transaction''),
                       Log ''Processing transaction''];
                    call =
                      (if submit d then SubmitCall c (transactionName d) args
                       else EvaluateCall c (transactionName d) args);
                    answer =
                      (if submit d then submitTransaction ledger c (transactionName d) args
                       else evatuateTransaction ledger c (transactionName d) args)
                in case answer of
                     Inr bytes \<Rightarrow>
                       \<lparr> jobAfter = job,
                         effects = logs @ [call],
                         outcome = Inr \<lparr> transactionPayload = Some (utf8Decode col bytes),
                                         transactionError = None \<rparr> \<rparr>
                   | Inl err \<Rightarrow>
                       (let retryAction = getRetryAction col err
                        in if retryAction = RetryNone
                           then
                             \<lparr> jobAfter = job,
                               effects = logs @ [call, Log ''Fatal transaction error occurred''],
                               outcome = Inr \<lparr> transactionPayload = None,
                                               transactionError = Some (errText col err) \<rparr> \<rparr>
                           else
                             \<lparr> jobAfter = job,
                               effects =
                                 logs @ [call, Log ''Retryable transaction error occurred'']
                                 @ (if retryAction = WithNewTransactionId
                                    then [Log ''Clearing saved transaction state'']
                                    else []),
                               outcome = Inl (Rethrown err) \<rparr>))))"

section \<open>The queue's side of an attempt\<close>

text \<open>
  Modelled from the spec: the queue and its worker are the queue library's, not code
  under the sources. The worker sees of an attempt only whether the processor returned
  a value or threw (\<open>initJobQueueWorker\<close> gives it \<open>processTransactionJob(app, job)\<close>
  as processor), so the transitions of the specification's state machine out of
  \<open>active\<close> are keyed on that. Every attempt counts once in \<open>attemptsMade\<close>. A
  processor that returns completes the job, with the returned value as
  \<open>returnvalue\<close>. A processor that throws (``the job will be retried if this function
  throws an error'') sends the job to \<open>delayed\<close> while attempts remain and to
  \<open>failed\<close> when they are exhausted, and no return value is recorded. The removal of
  old completed and failed jobs beyond the retention caps is not part of this model.
\<close>

definition finishJob :: "Job \<Rightarrow> 'e Thrown + JobResult \<Rightarrow> Job" where
  "finishJob job out =
     (case out of
        Inr r \<Rightarrow>
          job\<lparr> attemptsMade := attemptsMade job + 1, returnvalue := Some r,
               jobState := Completed \<rparr>
      | Inl err \<Rightarrow>
          (if int (attemptsMade job + 1) < attempts (opts job)
           then job\<lparr> attemptsMade := attemptsMade job + 1, jobState := Delayed \<rparr>
           else job\<lparr> attemptsMade := attemptsMade job + 1, jobState := Failed \<rparr>))"

text \<open>
  One attempt, as \<open>initJobQueueWorker\<close> wires it: the worker's processor is
  \<open>processTransactionJob(app, job)\<close>, and the queue records its outcome.
\<close>

definition runAttempt ::
  "'e Collaborators \<Rightarrow> ('c, 'e) Ledger \<Rightarrow> 'c Locals \<Rightarrow> Job \<Rightarrow> Job" where
  "runAttempt col ledger locals job =
     (let p = processTransactionJob col ledger locals job
      in finishJob (jobAfter p) (outcome p))"

text \<open>
  Modelled from the spec: the life of a job in the queue. A waiting job is claimed by a
  worker slot; an active job is attempted (the ledger may answer anything), or stalls
  and is delivered again; a delayed job is promoted when its backoff has elapsed.
  \<open>completed\<close> and \<open>failed\<close> are terminal.
\<close>

inductive jobStep :: "'e Collaborators \<Rightarrow> 'c Locals \<Rightarrow> Job \<Rightarrow> Job \<Rightarrow> bool"
  for col :: "'e Collaborators" and locals :: "'c Locals" where
  claimed: "jobState job = Waiting \<Longrightarrow> jobStep col locals job (job\<lparr> jobState := Active \<rparr>)"
| attempted: "jobState job = Active \<Longrightarrow>
     jobStep col locals job (runAttempt col (ledger :: ('c, 'e) Ledger) locals job)"
| stalled: "jobState job = Active \<Longrightarrow> jobStep col locals job (job\<lparr> jobState := Waiting \<rparr>)"
| promoted: "jobState job = Delayed \<Longrightarrow> jobStep col locals job (job\<lparr> jobState := Waiting \<rparr>)"

text \<open>
  Modelled from the spec: a run of one job, with the ledger of each of its attempts.
  While the job is not terminal it is delivered to a worker slot (promoted first when
  it is delayed) and attempted.
\<close>

fun runJob :: "'e Collaborators \<Rightarrow> 'c Locals \<Rightarrow> ('c, 'e) Ledger list \<Rightarrow> Job \<Rightarrow> Job" where
  "runJob col locals [] job = job"
| "runJob col locals (ledger # ledgers) job =
     (if terminal job then job
      else runJob col locals ledgers
             (runAttempt col ledger locals (job\<lparr> jobState := Active \<rparr>)))"

section \<open>Enqueueing\<close>

text \<open>The decimal text of a number, for the identifiers of jobs.\<close>

function string_of_nat :: "nat \<Rightarrow> string" where
  "string_of_nat n =
     (if n < 10 then [''0123456789'' ! n]
      else string_of_nat (n div 10) @ [''0123456789'' ! (n mod 10)])"
  by pat_completeness auto
termination
  by (relation "measure (\<lambda>n. n)") auto

declare string_of_nat.simps [simp del]

text \<open>
  Modelled from the spec: \<open>queue.add\<close> is the queue library's. The job gets an
  identifier that is stable and unique in the queue (the decimal text of a counter),
  the queue's default options, no attempt made, no return value, and waits.
\<close>

definition queue_add :: "Queue \<Rightarrow> string \<Rightarrow> JobData \<Rightarrow> Queue \<times> Job" where
  "queue_add q jobName d =
     (let job = \<lparr> id_job = Some (string_of_nat (jobCounter q + 1)),
                  name = jobName,
                  data = Some d,
                  opts = defaultJobOptions q,
                  attemptsMade = 0,
                  returnvalue = None,
                  jobState = Waiting \<rparr>
      in (q\<lparr> jobs := jobs q @ [job], jobCounter := jobCounter q + 1 \<rparr>, job))"

text \<open>
  \<open>addTransactionJob(jobQueue, mspId, transactionName, submit, ...transactionArgs)\<close>:
  the new queue, the job as added, and the job id returned (or the error thrown when
  the job has none).
\<close>

definition addTransactionJob ::
  "Queue \<Rightarrow> string \<Rightarrow> string \<Rightarrow> bool \<Rightarrow> string list \<Rightarrow> Queue \<times> Job \<times> (JobError + string)" where
  "addTransactionJob q mspId' transactionName' submit' transactionArgs' =
     (let jobName = transactionName' @ '' transaction'';
          (q', job) = queue_add q jobName
             \<lparr> mspId = mspId',
               transactionName = transactionName',
               submit = submit',
               transactionArgs = transactionArgs',
               transactionState = None,
               transactionIds = [] \<rparr>
      in case id_job job of
           None \<Rightarrow> (q', job, Inl (Error ''Job ID not available''))
         | Some i \<Rightarrow> (q', job, Inr i))"

section \<open>Reading jobs back\<close>

text \<open>
  Modelled from the spec: \<open>queue.getJob(jobId)\<close> and \<open>queue.getJobs(types)\<close> are the
  queue library's. The first finds the job stored under the id, the second lists the
  jobs whose state is one of the given types.
\<close>

definition queue_getJob :: "Queue \<Rightarrow> string \<Rightarrow> Job option" where
  "queue_getJob q jobId' = find (\<lambda>job. id_job job = Some jobId') (jobs q)"

definition queue_getJobs :: "Queue \<Rightarrow> string list \<Rightarrow> Job list" where
  "queue_getJobs q types = filter (\<lambda>job. getState job \<in> set types) (jobs q)"

text \<open>\<open>getJobSummary(job)\<close>; \<open>job.id || 'unknown'\<close> also replaces the empty id.\<close>

definition getJobSummary :: "Job \<Rightarrow> JobSummary" where
  "getJobSummary job =
     (let state = getState job;
          transactionIds' =
            (case data job of
               Some d \<Rightarrow> transactionIds d
             | None \<Rightarrow> []);
          jobSummary =
            \<lparr> jobId = (case id_job job of
                         None \<Rightarrow> ''unknown''
                       | Some i \<Rightarrow> if i = [] then ''unknown'' else i),
              name_summary = name job,
              state_summary = state,
              attempts_summary = attemptsMade job,
              transactionIds_summary = transactionIds',
              result = None \<rparr>
      in if isCompleted job \<or> isFailed job
         then jobSummary\<lparr> result := Some (returnvalue job) \<rparr>
         else jobSummary)"

text \<open>\<open>getAllJobs(mspId, queue)\<close>.\<close>

definition allJobTypes :: "string list" where
  "allJobTypes =
     [''active'', ''completed'', ''delayed'', ''failed'', ''paused'', ''repeat'',
      ''wait'', ''waiting'', ''waiting-children'']"

definition getAllJobs :: "string \<Rightarrow> Queue \<Rightarrow> JobSummary list" where
  "getAllJobs mspId' queue =
     (let jobs' = queue_getJobs queue allJobTypes
      in map getJobSummary
           (filter (\<lambda>job. case data job of
                             None \<Rightarrow> False
                           | Some d \<Rightarrow> mspId d = mspId') jobs'))"

text \<open>\<open>getJob(mspId, queue, jobId)\<close>: \<open>Inl\<close> is the error thrown.\<close>

definition jobNotFound :: "string \<Rightarrow> JobError" where
  "jobNotFound jobId' = JobNotFoundError (''Job '' @ jobId' @ '' not found'') jobId'"

definition getJob :: "string \<Rightarrow> Queue \<Rightarrow> string \<Rightarrow> JobError + JobSummary" where
  "getJob mspId' queue jobId' =
     (case queue_getJob queue jobId' of
        None \<Rightarrow> Inl (jobNotFound jobId')
      | Some job \<Rightarrow>
          if id_job job = None then Inl (jobNotFound jobId')
          else if (case data job of None \<Rightarrow> True | Some d \<Rightarrow> mspId d \<noteq> mspId')
          then Inl (jobNotFound jobId')
          else Inr (getJobSummary job))"

section \<open>Notions used to state the properties\<close>

text \<open>
  The answer of the ledger to the one call an attempt makes for the job data \<open>d\<close>:
  the condition of the \<open>try\<close> block of the processor.
\<close>

definition ledgerAnswer :: "('c, 'e) Ledger \<Rightarrow> 'c \<Rightarrow> JobData \<Rightarrow> 'e + Buffer" where
  "ledgerAnswer ledger c d =
     (if submit d then submitTransaction ledger c (transactionName d) (transactionArgs d)
      else evatuateTransaction ledger c (transactionName d) (transactionArgs d))"

text \<open>
  Whether a result field of a job is set; a job without a return value has neither.
\<close>

definition payloadSet :: "Job \<Rightarrow> bool" where
  "payloadSet job =
     (case returnvalue job of None \<Rightarrow> False | Some r \<Rightarrow> transactionPayload r \<noteq> None)"

definition errorSet :: "Job \<Rightarrow> bool" where
  "errorSet job =
     (case returnvalue job of None \<Rightarrow> False | Some r \<Rightarrow> transactionError r \<noteq> None)"

section \<open>A concrete deployment\<close>

text \<open>
  Two organisations with their contracts (numbered), a classifier on error names, a
  decoder that knows the bytes of \<open>H\<close> and \<open>i\<close>, and ledgers that give the same
  answer to every call; a queue set up from the default
  configuration, and jobs in it.
\<close>

definition exCol :: "string Collaborators" where
  "exCol =
     \<lparr> getRetryAction =
         (\<lambda>e. if e = ''timeout'' then SameInvocation
              else if e = ''stale'' then WithNewTransactionId
              else RetryNone),
       errText = (\<lambda>e. ''Error: '' @ e),
       utf8Decode =
         map (\<lambda>w. if w = 72 then CHR ''H'' else if w = 105 then CHR ''i'' else CHR ''?'') \<rparr>"

definition exLocals :: "nat Locals" where
  "exLocals =
     [''Org1MSP'' \<mapsto> Contracts 1 2, ''Org2MSP'' \<mapsto> Contracts 3 4, ''jobq'' \<mapsto> OtherLocal]"

definition exLedger :: "string + Buffer \<Rightarrow> (nat, string) Ledger" where
  "exLedger answer =
     \<lparr> submitTransaction = (\<lambda>c n as. answer),
       evatuateTransaction = (\<lambda>c n as. answer) \<rparr>"

definition exQueue :: Queue where
  "exQueue = initJobQueue (defaultConfig ''submit'')"

definition exData :: "string \<Rightarrow> JobData" where
  "exData m =
     \<lparr> mspId = m,
       transactionName = ''Transfer'',
       submit = True,
       transactionArgs = [''alice'', ''bob'', ''10''],
       transactionState = None,
       transactionIds = [] \<rparr>"

definition exJob :: "string \<Rightarrow> Job" where
  "exJob m =
     \<lparr> id_job = Some ''1'',
       name = ''Transfer transaction'',
       data = Some (exData m),
       opts = defaultJobOptions exQueue,
       attemptsMade = 0,
       returnvalue = None,
       jobState = Waiting \<rparr>"

text \<open>A queue holding a job of each organisation.\<close>

definition exQueue2 :: Queue where
  "exQueue2 =
     exQueue\<lparr> jobs := [exJob ''Org1MSP'', (exJob ''Org2MSP'')\<lparr> id_job := Some ''2'' \<rparr>],
              jobCounter := 2 \<rparr>"

text \<open>
  A configuration whose attempt limit is zero, and the job enqueued in the queue set
  up from it.
\<close>

definition exZeroConfig :: Config where
  "exZeroConfig = (defaultConfig ''submit'')\<lparr> submitJobAttempts := 0 \<rparr>"

definition exZeroJob :: Job where
  "exZeroJob = (exJob ''Org1MSP'')\<lparr> opts := defaultJobOptions (initJobQueue exZeroConfig) \<rparr>"

section \<open>Invariants of the life of a job\<close>

text \<open>
  Attempts: a job that can still be attempted has made fewer attempts than its limit,
  a terminal one at most as many, where a limit below one counts as one (a job is
  attempted at least once).
\<close>

definition attemptsInv :: "Job \<Rightarrow> bool" where
  "attemptsInv job =
     (if terminal job then int (attemptsMade job) \<le> max 1 (attempts (opts job))
      else int (attemptsMade job) < max 1 (attempts (opts job)))"

text \<open>
  Results: only a completed job has a return value. It is the empty result when no
  contract is resolvable for the job; otherwise it carries either the decoded answer
  of a ledger call as its payload and no error, or the text of an error classified
  \<open>RetryAction.None\<close> as its error and no payload.
\<close>

definition resultShape :: "'e Collaborators \<Rightarrow> 'c option \<Rightarrow> Job \<Rightarrow> bool" where
  "resultShape col contract' job =
     (if jobState job = Completed
      then (case contract' of
              None \<Rightarrow>
                returnvalue job = Some \<lparr> transactionPayload = None, transactionError = None \<rparr>
            | Some c \<Rightarrow>
                (\<exists>bytes. returnvalue job =
                   Some \<lparr> transactionPayload = Some (utf8Decode col bytes),
                          transactionError = None \<rparr>)
                \<or> (\<exists>err. getRetryAction col err = RetryNone
                      \<and> returnvalue job =
                          Some \<lparr> transactionPayload = None,
                                 transactionError = Some (errText col err) \<rparr>))
      else returnvalue job = None)"

section \<open>Basic facts\<close>

lemma processed_jobAfter: "jobAfter (processTransactionJob col ledger locals job) = job"
  by (simp add: processTransactionJob_def Let_def split: option.splits sum.splits)

lemma finishJob_data: "data (finishJob job out) = data job"
  by (simp add: finishJob_def split: sum.splits)

lemma finishJob_opts: "opts (finishJob job out) = opts job"
  by (simp add: finishJob_def split: sum.splits)

lemma runAttempt_data: "data (runAttempt col ledger locals job) = data job"
  by (simp add: runAttempt_def Let_def processed_jobAfter finishJob_data)

lemma runAttempt_opts: "opts (runAttempt col ledger locals job) = opts job"
  by (simp add: runAttempt_def Let_def processed_jobAfter finishJob_opts)

lemma jobStep_data: "jobStep col locals j j' \<Longrightarrow> data j' = data j"
  by (induction rule: jobStep.induct) (simp_all add: runAttempt_data)

lemma jobStep_opts: "jobStep col locals j j' \<Longrightarrow> opts j' = opts j"
  by (induction rule: jobStep.induct) (simp_all add: runAttempt_opts)

lemma reachable_data: "(jobStep col locals)\<^sup>*\<^sup>* j j' \<Longrightarrow> data j' = data j"
  by (induction rule: rtranclp_induct) (simp_all add: jobStep_data)

lemma reachable_opts: "(jobStep col locals)\<^sup>*\<^sup>* j j' \<Longrightarrow> opts j' = opts j"
  by (induction rule: rtranclp_induct) (simp_all add: jobStep_opts)

lemma no_step_Completed: "jobState j = Completed \<Longrightarrow> \<not> jobStep col locals j j'"
  by (auto elim: jobStep.cases)

lemma no_step_Failed: "jobState j = Failed \<Longrightarrow> \<not> jobStep col locals j j'"
  by (auto elim: jobStep.cases)

text \<open>The outcome of the processor on each of its paths.\<close>

lemma outcome_nocontract:
  assumes "data job = Some d" and "lookupContract locals (mspId d) = None"
  shows "processTransactionJob col ledger locals job =
     \<lparr> jobAfter = job,
       effects = [Log ''Processing job'', Log ''Contract not found for MSP ID''],
       outcome = Inr \<lparr> transactionPayload = None, transactionError = None \<rparr> \<rparr>"
  using assms by (simp add: processTransactionJob_def)

lemma outcome_ok:
  assumes "data job = Some d" and "lookupContract locals (mspId d) = Some c"
    and "ledgerAnswer ledger c d = Inr bytes"
  shows "outcome (processTransactionJob col ledger locals job) =
     Inr \<lparr> transactionPayload = Some (utf8Decode col bytes), transactionError = None \<rparr>"
  using assms by (simp add: processTransactionJob_def ledgerAnswer_def Let_def split: if_splits)

lemma outcome_none:
  assumes "data job = Some d" and "lookupContract locals (mspId d) = Some c"
    and "ledgerAnswer ledger c d = Inl err" and "getRetryAction col err = RetryNone"
  shows "outcome (processTransactionJob col ledger locals job) =
     Inr \<lparr> transactionPayload = None, transactionError = Some (errText col err) \<rparr>"
  using assms by (simp add: processTransactionJob_def ledgerAnswer_def Let_def split: if_splits)

lemma outcome_retry:
  assumes "data job = Some d" and "lookupContract locals (mspId d) = Some c"
    and "ledgerAnswer ledger c d = Inl err" and "getRetryAction col err \<noteq> RetryNone"
  shows "outcome (processTransactionJob col ledger locals job) = Inl (Rethrown err)"
  using assms by (simp add: processTransactionJob_def ledgerAnswer_def Let_def split: if_splits)

lemma string_of_nat_1: "string_of_nat (Suc 0) = ''1''"
  by (subst string_of_nat.simps) simp

lemma exJob_added:
  "addTransactionJob exQueue m ''Transfer'' True [''alice'', ''bob'', ''10''] =
     (exQueue\<lparr> jobs := [exJob m], jobCounter := 1 \<rparr>, exJob m, Inr ''1'')"
  by (simp add: addTransactionJob_def queue_add_def exJob_def exData_def exQueue_def
      initJobQueue_def Let_def string_of_nat_1)

lemma added_job:
  assumes "addTransactionJob q m tn s args = (q', job0, r)"
  shows "job0 = \<lparr> id_job = Some (string_of_nat (jobCounter q + 1)),
                  name = tn @ '' transaction'',
                  data = Some \<lparr> mspId = m, transactionName = tn, submit = s,
               transactionArgs = args, transactionState = None, transactionIds = [] \<rparr>,
                  opts = defaultJobOptions q,
                  attemptsMade = 0,
                  returnvalue = None,
                  jobState = Waiting \<rparr>"
  using assms by (auto simp: addTransactionJob_def queue_add_def Let_def)

lemma runAttempt_thrown:
  assumes "outcome (processTransactionJob col ledger locals job) = Inl t"
  shows "runAttempt col ledger locals job =
     job\<lparr> attemptsMade := attemptsMade job + 1,
          jobState := (if int (attemptsMade job + 1) < attempts (opts job)
                       then Delayed else Failed) \<rparr>"
  using assms by (simp add: runAttempt_def Let_def processed_jobAfter finishJob_def)

text \<open>Facts about the concrete deployment.\<close>

lemma ex_lookup1: "lookupContract exLocals ''Org1MSP'' = Some 1"
  by (simp add: lookupContract_def exLocals_def)

lemma ex_lookup3: "lookupContract exLocals ''Org3MSP'' = None"
  by (simp add: lookupContract_def exLocals_def)

lemma ex_answer: "ledgerAnswer (exLedger a) c (exData m) = a"
  by (simp add: ledgerAnswer_def exLedger_def exData_def)

lemma ex_errText: "errText exCol e = ''Error: '' @ e"
  by (simp add: exCol_def)

lemma ex_rejected: "getRetryAction exCol ''rejected'' = RetryNone"
  by (simp add: exCol_def)

lemma ex_data_active: "data ((exJob m)\<lparr> jobState := Active \<rparr>) = Some (exData m)"
  by (simp add: exJob_def)

lemma ex_mspId: "mspId (exData m) = m"
  by (simp add: exData_def)


lemma added_data:
  assumes "addTransactionJob q m tn s args = (q', job0, r)"
  shows "data job0 = Some \<lparr> mspId = m, transactionName = tn, submit = s,
               transactionArgs = args, transactionState = None, transactionIds = [] \<rparr>"
  by (simp add: added_job [OF assms])

text \<open>The two invariants are kept by every step of a job.\<close>

lemma attemptsInv_step:
  assumes "jobStep col locals j j'" and "attemptsInv j"
  shows "attemptsInv j'"
  using assms
proof (induction rule: jobStep.induct)
  case (attempted job ledger)
  then show ?case
    by (simp add: attemptsInv_def terminal_def runAttempt_def Let_def processed_jobAfter
        finishJob_def split: sum.splits)
qed (simp_all add: attemptsInv_def terminal_def)

lemma attemptsInv_reachable:
  assumes "(jobStep col locals)\<^sup>*\<^sup>* j j'" and "attemptsInv j"
  shows "attemptsInv j'"
  using assms by (induction rule: rtranclp_induct) (simp_all add: attemptsInv_step)

lemma attemptsInv_le: "attemptsInv j \<Longrightarrow> int (attemptsMade j) \<le> max 1 (attempts (opts j))"
  by (simp add: attemptsInv_def split: if_splits)

lemma runAttempt_resultShape:
  assumes "data job = Some d"
  shows "resultShape col (lookupContract locals (mspId d)) (runAttempt col ledger locals job)
       \<or> (jobState (runAttempt col ledger locals job) \<noteq> Completed
          \<and> returnvalue (runAttempt col ledger locals job) = returnvalue job)"
proof (cases "lookupContract locals (mspId d)")
  case None
  then show ?thesis
    using assms
    by (simp add: resultShape_def runAttempt_def Let_def outcome_nocontract finishJob_def)
next
  case (Some c)
  show ?thesis
  proof (cases "ledgerAnswer ledger c d")
    case (Inr bytes)
    have "outcome (processTransactionJob col ledger locals job) =
      Inr \<lparr> transactionPayload = Some (utf8Decode col bytes), transactionError = None \<rparr>"
      using assms Some Inr by (rule outcome_ok)
    then have "runAttempt col ledger locals job =
      job\<lparr> attemptsMade := attemptsMade job + 1,
           returnvalue := Some \<lparr> transactionPayload = Some (utf8Decode col bytes),
                                 transactionError = None \<rparr>,
           jobState := Completed \<rparr>"
      by (simp add: runAttempt_def Let_def processed_jobAfter finishJob_def)
    then have "resultShape col (Some c) (runAttempt col ledger locals job)"
      by (auto simp: resultShape_def)
    then show ?thesis
      by (simp add: Some)
  next
    case (Inl err)
    show ?thesis
    proof (cases "getRetryAction col err = RetryNone")
      case True
      have "outcome (processTransactionJob col ledger locals job) =
        Inr \<lparr> transactionPayload = None, transactionError = Some (errText col err) \<rparr>"
        using assms Some Inl True by (rule outcome_none)
      then have "runAttempt col ledger locals job =
        job\<lparr> attemptsMade := attemptsMade job + 1,
             returnvalue := Some \<lparr> transactionPayload = None,
                                   transactionError = Some (errText col err) \<rparr>,
             jobState := Completed \<rparr>"
        by (simp add: runAttempt_def Let_def processed_jobAfter finishJob_def)
      with True have "resultShape col (Some c) (runAttempt col ledger locals job)"
        by (auto simp: resultShape_def)
      then show ?thesis
        by (simp add: Some)
    next
      case False
      have "outcome (processTransactionJob col ledger locals job) = Inl (Rethrown err)"
        using assms Some Inl False by (rule outcome_retry)
      then have "runAttempt col ledger locals job =
        job\<lparr> attemptsMade := attemptsMade job + 1,
             jobState := (if int (attemptsMade job + 1) < attempts (opts job)
                          then Delayed else Failed) \<rparr>"
        by (rule runAttempt_thrown)
      then show ?thesis
        by simp
    qed
  qed
qed

lemma resultShape_step:
  assumes "jobStep col locals j j'" and "data j = Some d"
    and "resultShape col (lookupContract locals (mspId d)) j"
  shows "resultShape col (lookupContract locals (mspId d)) j'"
  using assms
proof (induction rule: jobStep.induct)
  case (attempted job ledger)
  from attempted.hyps attempted.prems(2) have rv: "returnvalue job = None"
    by (simp add: resultShape_def)
  from runAttempt_resultShape [OF attempted.prems(1), of col locals ledger]
  show ?case
  proof
    assume "resultShape col (lookupContract locals (mspId d)) (runAttempt col ledger locals job)"
    then show ?thesis .
  next
    assume "jobState (runAttempt col ledger locals job) \<noteq> Completed
          \<and> returnvalue (runAttempt col ledger locals job) = returnvalue job"
    with rv show ?thesis
      by (simp add: resultShape_def)
  qed
qed (simp_all add: resultShape_def)

lemma resultShape_reachable:
  assumes "(jobStep col locals)\<^sup>*\<^sup>* j j'" and "data j = Some d"
    and "resultShape col (lookupContract locals (mspId d)) j"
  shows "resultShape col (lookupContract locals (mspId d)) j'"
  using assms
proof (induction rule: rtranclp_induct)
  case base
  then show ?case by simp
next
  case (step y z)
  have dy: "data y = Some d"
    using step.hyps(1) step.prems(1) by (simp add: reachable_data)
  have "resultShape col (lookupContract locals (mspId d)) y"
    using step.IH step.prems by simp
  with step.hyps(2) dy show ?case
    by (rule resultShape_step)
qed

lemma resultShape_fields:
  assumes "resultShape col contract' job"
  shows "\<not> (payloadSet job \<and> errorSet job)"
    and "(payloadSet job \<noteq> errorSet job) = (jobState job = Completed \<and> contract' \<noteq> None)"
    and "payloadSet job \<longrightarrow>
           (\<exists>bytes. returnvalue job =
              Some \<lparr> transactionPayload = Some (utf8Decode col bytes),
                     transactionError = None \<rparr>)"
    and "errorSet job \<longrightarrow>
           (\<exists>err. getRetryAction col err = RetryNone
              \<and> returnvalue job =
                  Some \<lparr> transactionPayload = None,
                         transactionError = Some (errText col err) \<rparr>)"
  using assms
  by (auto simp: resultShape_def payloadSet_def errorSet_def
      split: if_splits option.splits)

text \<open>Every state name is among the types that \<open>getAllJobs\<close> asks for.\<close>

lemma getState_allJobTypes: "getState job \<in> set allJobTypes"
  by (cases "jobState job") (simp_all add: getState_def allJobTypes_def)

lemma queue_getJobs_all: "queue_getJobs q allJobTypes = jobs q"
  by (simp add: queue_getJobs_def getState_allJobTypes)

lemma tenant_filter:
  "(case data job of None \<Rightarrow> False | Some d \<Rightarrow> mspId d = t) =
     (map_option mspId (data job) = Some t)"
  by (cases "data job") simp_all

text \<open>A run of a job is a sequence of steps of the job.\<close>

lemma deliver_reachable:
  assumes "\<not> terminal job"
  shows "(jobStep col locals)\<^sup>*\<^sup>* job (job\<lparr> jobState := Active \<rparr>)"
proof (cases "jobState job")
  case Waiting
  then have "jobStep col locals job (job\<lparr> jobState := Active \<rparr>)"
    by (rule jobStep.claimed)
  then show ?thesis by (rule r_into_rtranclp)
next
  case Delayed
  then have s1: "jobStep col locals job (job\<lparr> jobState := Waiting \<rparr>)"
    by (rule jobStep.promoted)
  have "jobStep col locals (job\<lparr> jobState := Waiting \<rparr>)
          (job\<lparr> jobState := Waiting \<rparr>\<lparr> jobState := Active \<rparr>)"
    by (rule jobStep.claimed) simp
  then have s2: "jobStep col locals (job\<lparr> jobState := Waiting \<rparr>) (job\<lparr> jobState := Active \<rparr>)"
    by simp
  from s1 s2 show ?thesis
    by (rule converse_rtranclp_into_rtranclp [OF _ r_into_rtranclp])
next
  case Active
  then have "job\<lparr> jobState := Active \<rparr> = job" by simp
  then show ?thesis by simp
next
  case Completed
  with assms show ?thesis by (simp add: terminal_def)
next
  case Failed
  with assms show ?thesis by (simp add: terminal_def)
qed

lemma runJob_reachable:
  "(jobStep col locals)\<^sup>*\<^sup>* job (runJob col locals ledgers job)"
proof (induction ledgers arbitrary: job)
  case Nil
  show ?case by simp
next
  case (Cons ledger ledgers)
  show ?case
  proof (cases "terminal job")
    case True
    then show ?thesis by simp
  next
    case False
    then have d: "(jobStep col locals)\<^sup>*\<^sup>* job (job\<lparr> jobState := Active \<rparr>)"
      by (rule deliver_reachable)
    have a: "jobStep col locals (job\<lparr> jobState := Active \<rparr>)
        (runAttempt col ledger locals (job\<lparr> jobState := Active \<rparr>))"
      by (rule jobStep.attempted) simp
    from d a have "(jobStep col locals)\<^sup>*\<^sup>* job
        (runAttempt col ledger locals (job\<lparr> jobState := Active \<rparr>))"
      by (rule rtranclp.rtrancl_into_rtrancl)
    also have "(jobStep col locals)\<^sup>*\<^sup>* (runAttempt col ledger locals (job\<lparr> jobState := Active \<rparr>))
        (runJob col locals ledgers (runAttempt col ledger locals (job\<lparr> jobState := Active \<rparr>)))"
      by (rule Cons.IH)
    finally show ?thesis using False by simp
  qed
qed

text \<open>More facts about the concrete deployment: one attempt of its jobs.\<close>

lemma ex_timeout: "getRetryAction exCol ''timeout'' \<noteq> RetryNone"
  by (simp add: exCol_def)

lemma ex_active_attempts:
  "attemptsMade ((exJob m)\<lparr> jobState := Active \<rparr>) = 0"
  "attempts (opts ((exJob m)\<lparr> jobState := Active \<rparr>)) = 5"
  by (simp_all add: exJob_def exQueue_def initJobQueue_def defaultConfig_def)

lemma ex_lookup_data1: "lookupContract exLocals (mspId (exData ''Org1MSP'')) = Some 1"
  by (simp only: ex_mspId ex_lookup1)

lemma ex_lookup_data3: "lookupContract exLocals (mspId (exData ''Org3MSP'')) = None"
  by (simp only: ex_mspId ex_lookup3)

lemma ex_reach:
  "(jobStep exCol exLocals)\<^sup>*\<^sup>* (exJob m)
     (runAttempt exCol (ledger :: (nat, string) Ledger) exLocals
        ((exJob m)\<lparr> jobState := Active \<rparr>))"
proof -
  have s1: "jobStep exCol exLocals (exJob m) ((exJob m)\<lparr> jobState := Active \<rparr>)"
    by (rule jobStep.claimed) (simp add: exJob_def)
  have s2: "jobStep exCol exLocals ((exJob m)\<lparr> jobState := Active \<rparr>)
     (runAttempt exCol ledger exLocals ((exJob m)\<lparr> jobState := Active \<rparr>))"
    by (rule jobStep.attempted) simp
  from s1 s2 show ?thesis
    by (rule converse_rtranclp_into_rtranclp [OF _ r_into_rtranclp])
qed

lemma ex_job_attempts:
  "attemptsMade (exJob m) = 0"
  "attempts (opts (exJob m)) = 5"
  by (simp_all add: exJob_def exQueue_def initJobQueue_def defaultConfig_def)

lemma ex_attempt_timeout:
  "runAttempt exCol (exLedger (Inl ''timeout'')) exLocals
        ((exJob ''Org1MSP'')\<lparr> jobState := Active \<rparr>) =
       (exJob ''Org1MSP'')\<lparr> jobState := Active, attemptsMade := 1, jobState := Delayed \<rparr>"
proof -
  have "outcome (processTransactionJob exCol (exLedger (Inl ''timeout'')) exLocals
        ((exJob ''Org1MSP'')\<lparr> jobState := Active \<rparr>)) = Inl (Rethrown ''timeout'')"
    by (rule outcome_retry [OF ex_data_active ex_lookup_data1 ex_answer ex_timeout])
  then show ?thesis
    by (simp add: runAttempt_thrown ex_job_attempts)
qed

lemma ex_attempts: "submitJobAttempts (defaultConfig qn) = 5"
  by (simp add: defaultConfig_def)

lemma ex_attempt_nocontract:
  "runAttempt exCol ledger exLocals ((exJob ''Org3MSP'')\<lparr> jobState := Active \<rparr>) =
     (exJob ''Org3MSP'')\<lparr> jobState := Active, attemptsMade := 1,
        returnvalue := Some \<lparr> transactionPayload = None, transactionError = None \<rparr>,
        jobState := Completed \<rparr>"
  by (simp add: runAttempt_def Let_def outcome_nocontract [OF ex_data_active ex_lookup_data3]
      finishJob_def ex_job_attempts)

lemma ex_attempt_ok:
  "runAttempt exCol (exLedger (Inr [72, 105])) exLocals
     ((exJob ''Org1MSP'')\<lparr> jobState := Active \<rparr>) =
     (exJob ''Org1MSP'')\<lparr> jobState := Active, attemptsMade := 1,
        returnvalue := Some \<lparr> transactionPayload = Some ''Hi'', transactionError = None \<rparr>,
        jobState := Completed \<rparr>"
proof -
  have "utf8Decode exCol [72, 105] = ''Hi''"
    by (simp add: exCol_def)
  then show ?thesis
    by (simp add: runAttempt_def Let_def processed_jobAfter
      outcome_ok [OF ex_data_active ex_lookup_data1 ex_answer]
      finishJob_def ex_job_attempts)
qed

lemma ex_getJob2:
  "queue_getJob exQueue2 ''2'' = Some ((exJob ''Org2MSP'')\<lparr> id_job := Some ''2'' \<rparr>)"
  by (simp add: queue_getJob_def exQueue2_def exJob_def)

lemma ex_attempt_retry:
  assumes "getRetryAction exCol e \<noteq> RetryNone"
  shows "runAttempt exCol (exLedger (Inl e)) exLocals
        ((exJob ''Org1MSP'')\<lparr> attemptsMade := n, jobState := Active \<rparr>) =
       (exJob ''Org1MSP'')\<lparr> attemptsMade := Suc n,
          jobState := (if int (Suc n) < 5 then Delayed else Failed) \<rparr>"
proof -
  have d: "data ((exJob ''Org1MSP'')\<lparr> attemptsMade := n, jobState := Active \<rparr>) =
      Some (exData ''Org1MSP'')"
    by (simp add: exJob_def)
  have "outcome (processTransactionJob exCol (exLedger (Inl e)) exLocals
        ((exJob ''Org1MSP'')\<lparr> attemptsMade := n, jobState := Active \<rparr>)) = Inl (Rethrown e)"
    by (rule outcome_retry [OF d ex_lookup_data1 ex_answer assms])
  then show ?thesis
    by (simp add: runAttempt_thrown ex_job_attempts)
qed

lemma ex_job_state: "jobState (exJob m) = Waiting"
  by (simp add: exJob_def)

lemma ex_job_active:
  "(exJob m)\<lparr> jobState := Active \<rparr> = (exJob m)\<lparr> attemptsMade := 0, jobState := Active \<rparr>"
  by (simp add: exJob_def)

lemma ex_attempt_ok_n:
  "runAttempt exCol (exLedger (Inr [72, 105])) exLocals
     ((exJob ''Org1MSP'')\<lparr> attemptsMade := n, jobState := Active \<rparr>) =
     (exJob ''Org1MSP'')\<lparr> attemptsMade := Suc n,
        returnvalue := Some \<lparr> transactionPayload = Some ''Hi'', transactionError = None \<rparr>,
        jobState := Completed \<rparr>"
proof -
  have d: "data ((exJob ''Org1MSP'')\<lparr> attemptsMade := n, jobState := Active \<rparr>) =
      Some (exData ''Org1MSP'')"
    by (simp add: exJob_def)
  have "utf8Decode exCol [72, 105] = ''Hi''"
    by (simp add: exCol_def)
  then show ?thesis
    by (simp add: runAttempt_def Let_def processed_jobAfter
      outcome_ok [OF d ex_lookup_data1 ex_answer] finishJob_def)
qed

text \<open>
  Two scenarios of the specification in the concrete deployment, with the default
  limit of five attempts: a job whose every attempt times out fails after exactly five
  attempts, and a job that times out twice and then succeeds is completed by its third
  attempt.
\<close>

lemma scenario_D:
  "runJob exCol exLocals (replicate 7 (exLedger (Inl ''timeout''))) (exJob ''Org1MSP'') =
     (exJob ''Org1MSP'')\<lparr> attemptsMade := 5, jobState := Failed \<rparr>"
  by (simp add: eval_nat_numeral ex_job_state ex_job_active ex_attempt_retry [OF ex_timeout]
      terminal_def)

lemma scenario_B:
  "runJob exCol exLocals
     [exLedger (Inl ''timeout''), exLedger (Inl ''timeout''), exLedger (Inr [72, 105])]
     (exJob ''Org1MSP'') =
     (exJob ''Org1MSP'')\<lparr> attemptsMade := 3,
        returnvalue := Some \<lparr> transactionPayload = Some ''Hi'', transactionError = None \<rparr>,
        jobState := Completed \<rparr>"
  by (simp add: eval_nat_numeral ex_job_state ex_job_active ex_attempt_retry [OF ex_timeout]
      ex_attempt_ok_n terminal_def)


lemma ex_claimed:
  "(jobStep exCol exLocals)\<^sup>*\<^sup>* (exJob m) ((exJob m)\<lparr> jobState := Active \<rparr>)"
  by (rule r_into_rtranclp, rule jobStep.claimed) (rule ex_job_state)


lemma ex_decode_Hi: "utf8Decode exCol [72, 105] = ''Hi''"
  by (simp add: exCol_def)

lemma ex_zero_attempts: "submitJobAttempts exZeroConfig = 0"
  by (simp add: exZeroConfig_def)

lemma exZeroJob_added:
  "addTransactionJob (initJobQueue exZeroConfig) ''Org1MSP'' ''Transfer'' True
       [''alice'', ''bob'', ''10''] =
     ((initJobQueue exZeroConfig)\<lparr> jobs := [exZeroJob], jobCounter := 1 \<rparr>, exZeroJob, Inr ''1'')"
  by (simp add: addTransactionJob_def queue_add_def exZeroJob_def exJob_def exData_def
      initJobQueue_def Let_def string_of_nat_1)

lemma ex_zero_attempt:
  "runAttempt exCol (exLedger (Inl ''timeout'')) exLocals (exZeroJob\<lparr> jobState := Active \<rparr>) =
     exZeroJob\<lparr> attemptsMade := 1, jobState := Failed \<rparr>"
proof -
  have d: "data (exZeroJob\<lparr> jobState := Active \<rparr>) = Some (exData ''Org1MSP'')"
    by (simp add: exZeroJob_def exJob_def)
  have "outcome (processTransactionJob exCol (exLedger (Inl ''timeout'')) exLocals
        (exZeroJob\<lparr> jobState := Active \<rparr>)) = Inl (Rethrown ''timeout'')"
    by (rule outcome_retry [OF d ex_lookup_data1 ex_answer ex_timeout])
  then show ?thesis
    by (simp add: runAttempt_thrown exZeroJob_def exJob_def initJobQueue_def ex_zero_attempts)
qed

lemma ex_zero_reach:
  "(jobStep exCol exLocals)\<^sup>*\<^sup>* exZeroJob (exZeroJob\<lparr> attemptsMade := 1, jobState := Failed \<rparr>)"
proof -
  have s1: "jobStep exCol exLocals exZeroJob (exZeroJob\<lparr> jobState := Active \<rparr>)"
    by (rule jobStep.claimed) (simp add: exZeroJob_def exJob_def)
  have "jobStep exCol exLocals (exZeroJob\<lparr> jobState := Active \<rparr>)
     (runAttempt exCol (exLedger (Inl ''timeout'')) exLocals (exZeroJob\<lparr> jobState := Active \<rparr>))"
    by (rule jobStep.attempted) simp
  then have s2: "jobStep exCol exLocals (exZeroJob\<lparr> jobState := Active \<rparr>)
     (exZeroJob\<lparr> attemptsMade := 1, jobState := Failed \<rparr>)"
    by (simp only: ex_zero_attempt)
  from s1 s2 show ?thesis
    by (rule converse_rtranclp_into_rtranclp [OF _ r_into_rtranclp])
qed

section \<open>Non-retryable failures\<close>

text \<open>
  Claim C1, as the code has it. When the ledger call of an attempt fails with an error
  that \<open>getRetryAction\<close> maps to \<open>RetryAction.None\<close>, the processor does not throw:
  it returns a job result whose \<open>transactionError\<close> is the text of the error and whose
  \<open>transactionPayload\<close> is absent. The queue therefore records the attempt (one more
  in \<open>attemptsMade\<close>), stores the result as the return value and moves the job to
  \<open>completed\<close>, not to \<open>failed\<close>; the job is terminal, so it is not retried, whatever
  the number of attempts left.
\<close>

theorem C1_amended:
  assumes "data job = Some d" and "lookupContract locals (mspId d) = Some c"
    and "ledgerAnswer ledger c d = Inl err" and "getRetryAction col err = RetryNone"
  shows "outcome (processTransactionJob col ledger locals job) =
           Inr \<lparr> transactionPayload = None, transactionError = Some (errText col err) \<rparr>
       \<and> runAttempt col ledger locals job =
           job\<lparr> attemptsMade := attemptsMade job + 1,
                returnvalue := Some \<lparr> transactionPayload = None,
                                      transactionError = Some (errText col err) \<rparr>,
                jobState := Completed \<rparr>
       \<and> (\<forall>job'. \<not> jobStep col locals (runAttempt col ledger locals job) job')"
proof -
  have out: "outcome (processTransactionJob col ledger locals job) =
           Inr \<lparr> transactionPayload = None, transactionError = Some (errText col err) \<rparr>"
    using assms by (rule outcome_none)
  have run: "runAttempt col ledger locals job =
           job\<lparr> attemptsMade := attemptsMade job + 1,
                returnvalue := Some \<lparr> transactionPayload = None,
                                      transactionError = Some (errText col err) \<rparr>,
                jobState := Completed \<rparr>"
    by (simp add: runAttempt_def Let_def processed_jobAfter out finishJob_def)
  have "jobState (runAttempt col ledger locals job) = Completed"
    by (simp add: run)
  then have "\<forall>job'. \<not> jobStep col locals (runAttempt col ledger locals job) job'"
    by (simp add: no_step_Completed)
  with out run show ?thesis by simp
qed

text \<open>
  The amended claim on a job of the concrete deployment: the first attempt of a job
  with the default five attempts fails with a non-retryable error, and the job ends
  after that one attempt with the error text in its result.
\<close>

theorem C1_witness:
  "data ((exJob ''Org1MSP'')\<lparr> jobState := Active \<rparr>) = Some (exData ''Org1MSP'')
   \<and> lookupContract exLocals (mspId (exData ''Org1MSP'')) = Some 1
   \<and> ledgerAnswer (exLedger (Inl ''rejected'')) 1 (exData ''Org1MSP'') = Inl ''rejected''
   \<and> getRetryAction exCol ''rejected'' = RetryNone
   \<and> runAttempt exCol (exLedger (Inl ''rejected'')) exLocals
        ((exJob ''Org1MSP'')\<lparr> jobState := Active \<rparr>) =
       (exJob ''Org1MSP'')\<lparr> jobState := Active, attemptsMade := 1,
          returnvalue := Some \<lparr> transactionPayload = None,
                                transactionError = Some ''Error: rejected'' \<rparr>,
          jobState := Completed \<rparr>"
proof -
  have h1: "data ((exJob ''Org1MSP'')\<lparr> jobState := Active \<rparr>) = Some (exData ''Org1MSP'')"
    by (rule ex_data_active)
  have h2: "lookupContract exLocals (mspId (exData ''Org1MSP'')) = Some 1"
    by (simp only: ex_mspId ex_lookup1)
  have h3: "ledgerAnswer (exLedger (Inl ''rejected'')) 1 (exData ''Org1MSP'') = Inl ''rejected''"
    by (rule ex_answer)
  have h4: "getRetryAction exCol ''rejected'' = RetryNone"
    by (rule ex_rejected)
  have am: "attemptsMade ((exJob ''Org1MSP'')\<lparr> jobState := Active \<rparr>) = 0"
    by (simp add: exJob_def)
  have "runAttempt exCol (exLedger (Inl ''rejected'')) exLocals
        ((exJob ''Org1MSP'')\<lparr> jobState := Active \<rparr>) =
       (exJob ''Org1MSP'')\<lparr> jobState := Active, attemptsMade := 1,
          returnvalue := Some \<lparr> transactionPayload = None,
                                transactionError = Some ''Error: rejected'' \<rparr>,
          jobState := Completed \<rparr>"
    using C1_amended [OF h1 h2 h3 h4, THEN conjunct2, THEN conjunct1]
    unfolding am ex_errText by simp
  with h1 h2 h3 h4 show ?thesis by (intro conjI)
qed

text \<open>
  Claim C1 as stated asks for the state \<open>failed\<close>. On the job above, whose ledger call
  fails with an error classified \<open>RetryAction.None\<close>, the state after the attempt is
  not \<open>failed\<close>.
\<close>

theorem C1_counterexample:
  "getRetryAction exCol ''rejected'' = RetryNone
   \<and> ledgerAnswer (exLedger (Inl ''rejected'')) 1 (exData ''Org1MSP'') = Inl ''rejected''
   \<and> jobState (runAttempt exCol (exLedger (Inl ''rejected'')) exLocals
        ((exJob ''Org1MSP'')\<lparr> jobState := Active \<rparr>)) \<noteq> Failed"
proof -
  have "outcome (processTransactionJob exCol (exLedger (Inl ''rejected'')) exLocals
          ((exJob ''Org1MSP'')\<lparr> jobState := Active \<rparr>)) =
        Inr \<lparr> transactionPayload = None, transactionError = Some (errText exCol ''rejected'') \<rparr>"
    by (rule outcome_none [OF ex_data_active _ ex_answer ex_rejected])
       (simp only: ex_mspId ex_lookup1)
  then have "jobState (runAttempt exCol (exLedger (Inl ''rejected'')) exLocals
        ((exJob ''Org1MSP'')\<lparr> jobState := Active \<rparr>)) = Completed"
    by (simp add: runAttempt_def Let_def processed_jobAfter finishJob_def)
  then have "jobState (runAttempt exCol (exLedger (Inl ''rejected'')) exLocals
        ((exJob ''Org1MSP'')\<lparr> jobState := Active \<rparr>)) \<noteq> Failed"
    by simp
  with ex_rejected ex_answer show ?thesis by (intro conjI)
qed

section \<open>Retryable failures\<close>



text \<open>
  Claim C5. When the ledger call fails with an error whose retry action is not
  \<open>RetryAction.None\<close> (that is, \<open>SameInvocation\<close> or \<open>WithNewTransactionId\<close>), the
  processor re-throws that error; the queue counts the attempt and re-schedules the
  job (\<open>delayed\<close>) while attempts remain, and fails it once they are exhausted. The
  saved transaction state of the job is the same after the failed attempt as before,
  in particular for an error classified \<open>SameInvocation\<close>.
\<close>

theorem C5_rethrow:
  assumes "data job = Some d" and "lookupContract locals (mspId d) = Some c"
    and "ledgerAnswer ledger c d = Inl err"
    and "getRetryAction col err \<noteq> RetryNone"
  shows "outcome (processTransactionJob col ledger locals job) = Inl (Rethrown err)
       \<and> runAttempt col ledger locals job =
           job\<lparr> attemptsMade := attemptsMade job + 1,
                jobState := (if int (attemptsMade job + 1) < attempts (opts job)
                             then Delayed else Failed) \<rparr>
       \<and> map_option transactionState (data (runAttempt col ledger locals job))
           = Some (transactionState d)"
proof -
  have out: "outcome (processTransactionJob col ledger locals job) = Inl (Rethrown err)"
    using assms by (rule outcome_retry)
  then have run: "runAttempt col ledger locals job =
           job\<lparr> attemptsMade := attemptsMade job + 1,
                jobState := (if int (attemptsMade job + 1) < attempts (opts job)
                             then Delayed else Failed) \<rparr>"
    by (rule runAttempt_thrown)
  have "map_option transactionState (data (runAttempt col ledger locals job))
           = Some (transactionState d)"
    using assms(1) by (simp add: runAttempt_data)
  with out run show ?thesis by (intro conjI)
qed

text \<open>
  Claim C5 on a job of the concrete deployment: its first attempt fails with a timeout,
  which the classifier retries with the same invocation; the error is re-thrown and
  the job is delayed for its next attempt.
\<close>

theorem C5_witness:
  "data ((exJob ''Org1MSP'')\<lparr> jobState := Active \<rparr>) = Some (exData ''Org1MSP'')
   \<and> lookupContract exLocals (mspId (exData ''Org1MSP'')) = Some 1
   \<and> ledgerAnswer (exLedger (Inl ''timeout'')) 1 (exData ''Org1MSP'') = Inl ''timeout''
   \<and> getRetryAction exCol ''timeout'' \<noteq> RetryNone
   \<and> outcome (processTransactionJob exCol (exLedger (Inl ''timeout'')) exLocals
        ((exJob ''Org1MSP'')\<lparr> jobState := Active \<rparr>)) = Inl (Rethrown ''timeout'')
   \<and> runAttempt exCol (exLedger (Inl ''timeout'')) exLocals
        ((exJob ''Org1MSP'')\<lparr> jobState := Active \<rparr>) =
       (exJob ''Org1MSP'')\<lparr> jobState := Active, attemptsMade := 1, jobState := Delayed \<rparr>"
proof -
  note r = C5_rethrow [OF ex_data_active ex_lookup_data1 ex_answer ex_timeout]
  from r have r1: "outcome (processTransactionJob exCol (exLedger (Inl ''timeout'')) exLocals
        ((exJob ''Org1MSP'')\<lparr> jobState := Active \<rparr>)) = Inl (Rethrown ''timeout'')"
    by (rule conjunct1)
  from r have r2: "runAttempt exCol (exLedger (Inl ''timeout'')) exLocals
        ((exJob ''Org1MSP'')\<lparr> jobState := Active \<rparr>) =
       (exJob ''Org1MSP'')\<lparr> jobState := Active, attemptsMade := 1, jobState := Delayed \<rparr>"
    unfolding ex_active_attempts by simp
  from ex_data_active ex_lookup_data1 ex_answer ex_timeout r1 r2 show ?thesis
    by (intro conjI)
qed

section \<open>The result fields\<close>

text \<open>
  Claim C3, as the code has it. For every job enqueued by \<open>addTransactionJob\<close>, at
  every point of its life: the fields \<open>transactionPayload\<close> and \<open>transactionError\<close>
  of its result are never both set; exactly one of them is set precisely when the job
  is completed and a contract is resolvable for its MSP id; a payload that is set is
  the decoded answer of a ledger call, with no error beside it, and an error that is
  set is the text of an error classified \<open>RetryAction.None\<close>, with no payload beside
  it. Attempt by attempt, with a resolvable contract: a successful ledger call completes
  the job with the decoded answer as payload and no error; a failure classified
  \<open>RetryAction.None\<close> completes it with the error text and no payload; a retryable
  failure does not complete it and leaves its result as it was. Both fields are hence
  absent while the job is pending, when it completed with the empty result because no
  contract was resolvable, and when it failed (its attempts exhausted by re-thrown
  errors, for which no result is recorded).
\<close>

theorem C3_amended:
  assumes "addTransactionJob q m tn s args = (q', job0, r)"
    and "(jobStep col locals)\<^sup>*\<^sup>* job0 job"
  shows "\<not> (payloadSet job \<and> errorSet job)
       \<and> (payloadSet job \<noteq> errorSet job) =
           (jobState job = Completed \<and> lookupContract locals m \<noteq> None)
       \<and> (payloadSet job \<longrightarrow>
            (\<exists>bytes. returnvalue job =
               Some \<lparr> transactionPayload = Some (utf8Decode col bytes),
                      transactionError = None \<rparr>))
       \<and> (errorSet job \<longrightarrow>
            (\<exists>err. getRetryAction col err = RetryNone
               \<and> returnvalue job =
                   Some \<lparr> transactionPayload = None,
                          transactionError = Some (errText col err) \<rparr>))
       \<and> (lookupContract locals m = Some c \<and> data job = Some d
            \<and> ledgerAnswer ledger c d = Inr bytes' \<longrightarrow>
            jobState (runAttempt col ledger locals job) = Completed
            \<and> returnvalue (runAttempt col ledger locals job) =
                Some \<lparr> transactionPayload = Some (utf8Decode col bytes'),
                       transactionError = None \<rparr>)
       \<and> (lookupContract locals m = Some c \<and> data job = Some d
            \<and> ledgerAnswer ledger c d = Inl err' \<and> getRetryAction col err' = RetryNone \<longrightarrow>
            jobState (runAttempt col ledger locals job) = Completed
            \<and> returnvalue (runAttempt col ledger locals job) =
                Some \<lparr> transactionPayload = None,
                       transactionError = Some (errText col err') \<rparr>)
       \<and> (lookupContract locals m = Some c \<and> data job = Some d
            \<and> ledgerAnswer ledger c d = Inl err' \<and> getRetryAction col err' \<noteq> RetryNone \<longrightarrow>
            jobState (runAttempt col ledger locals job) \<noteq> Completed
            \<and> returnvalue (runAttempt col ledger locals job) = returnvalue job)"
proof -
  let ?d = "\<lparr> mspId = m, transactionName = tn, submit = s,
               transactionArgs = args, transactionState = None, transactionIds = [] \<rparr>"
  have d0: "data job0 = Some ?d"
    using assms(1) by (rule added_data)
  have dj: "data job = Some ?d"
    using reachable_data [OF assms(2)] d0 by simp
  have "resultShape col (lookupContract locals (mspId ?d)) job0"
    by (simp add: resultShape_def added_job [OF assms(1)])
  with assms(2) d0 have "resultShape col (lookupContract locals (mspId ?d)) job"
    by (rule resultShape_reachable)
  then have inv: "resultShape col (lookupContract locals m) job"
    by simp
  note f = resultShape_fields [OF inv]
  have ok: "lookupContract locals m = Some c \<and> data job = Some d
            \<and> ledgerAnswer ledger c d = Inr bytes' \<longrightarrow>
            jobState (runAttempt col ledger locals job) = Completed
            \<and> returnvalue (runAttempt col ledger locals job) =
                Some \<lparr> transactionPayload = Some (utf8Decode col bytes'),
                       transactionError = None \<rparr>"
  proof (intro impI, elim conjE)
    assume a: "lookupContract locals m = Some c" "data job = Some d"
      "ledgerAnswer ledger c d = Inr bytes'"
    with dj have "lookupContract locals (mspId d) = Some c" by auto
    with a have "outcome (processTransactionJob col ledger locals job) =
      Inr \<lparr> transactionPayload = Some (utf8Decode col bytes'), transactionError = None \<rparr>"
      by (simp add: outcome_ok)
    then show "jobState (runAttempt col ledger locals job) = Completed
            \<and> returnvalue (runAttempt col ledger locals job) =
                Some \<lparr> transactionPayload = Some (utf8Decode col bytes'),
                       transactionError = None \<rparr>"
      by (simp add: runAttempt_def Let_def processed_jobAfter finishJob_def)
  qed
  have none: "lookupContract locals m = Some c \<and> data job = Some d
            \<and> ledgerAnswer ledger c d = Inl err' \<and> getRetryAction col err' = RetryNone \<longrightarrow>
            jobState (runAttempt col ledger locals job) = Completed
            \<and> returnvalue (runAttempt col ledger locals job) =
                Some \<lparr> transactionPayload = None,
                       transactionError = Some (errText col err') \<rparr>"
  proof (intro impI, elim conjE)
    assume a: "lookupContract locals m = Some c" "data job = Some d"
      "ledgerAnswer ledger c d = Inl err'" "getRetryAction col err' = RetryNone"
    with dj have "lookupContract locals (mspId d) = Some c" by auto
    with a have "outcome (processTransactionJob col ledger locals job) =
      Inr \<lparr> transactionPayload = None, transactionError = Some (errText col err') \<rparr>"
      by (simp add: outcome_none)
    then show "jobState (runAttempt col ledger locals job) = Completed
            \<and> returnvalue (runAttempt col ledger locals job) =
                Some \<lparr> transactionPayload = None,
                       transactionError = Some (errText col err') \<rparr>"
      by (simp add: runAttempt_def Let_def processed_jobAfter finishJob_def)
  qed
  have retry: "lookupContract locals m = Some c \<and> data job = Some d
            \<and> ledgerAnswer ledger c d = Inl err' \<and> getRetryAction col err' \<noteq> RetryNone \<longrightarrow>
            jobState (runAttempt col ledger locals job) \<noteq> Completed
            \<and> returnvalue (runAttempt col ledger locals job) = returnvalue job"
  proof (intro impI, elim conjE)
    assume a: "lookupContract locals m = Some c" "data job = Some d"
      "ledgerAnswer ledger c d = Inl err'" "getRetryAction col err' \<noteq> RetryNone"
    with dj have "lookupContract locals (mspId d) = Some c" by auto
    with a have "outcome (processTransactionJob col ledger locals job) = Inl (Rethrown err')"
      by (simp add: outcome_retry)
    then have "runAttempt col ledger locals job =
        job\<lparr> attemptsMade := attemptsMade job + 1,
             jobState := (if int (attemptsMade job + 1) < attempts (opts job)
                          then Delayed else Failed) \<rparr>"
      by (rule runAttempt_thrown)
    then show "jobState (runAttempt col ledger locals job) \<noteq> Completed
            \<and> returnvalue (runAttempt col ledger locals job) = returnvalue job"
      by simp
  qed
  from f ok none retry show ?thesis
    by (intro conjI)
qed

text \<open>
  The amended claim on a job of the concrete deployment whose ledger call answers the
  bytes of \<open>Hi\<close>: the attempt completes the job with the payload \<open>Hi\<close> and no
  error.
\<close>

theorem C3_witness:
  "addTransactionJob exQueue ''Org1MSP'' ''Transfer'' True [''alice'', ''bob'', ''10''] =
     (exQueue\<lparr> jobs := [exJob ''Org1MSP''], jobCounter := 1 \<rparr>, exJob ''Org1MSP'', Inr ''1'')
   \<and> (jobStep exCol exLocals)\<^sup>*\<^sup>* (exJob ''Org1MSP'')
        ((exJob ''Org1MSP'')\<lparr> jobState := Active \<rparr>)
   \<and> (jobStep exCol exLocals)\<^sup>*\<^sup>* (exJob ''Org1MSP'')
        (runAttempt exCol (exLedger (Inr [72, 105])) exLocals
           ((exJob ''Org1MSP'')\<lparr> jobState := Active \<rparr>))
   \<and> lookupContract exLocals ''Org1MSP'' = Some 1
   \<and> data ((exJob ''Org1MSP'')\<lparr> jobState := Active \<rparr>) = Some (exData ''Org1MSP'')
   \<and> ledgerAnswer (exLedger (Inr [72, 105])) 1 (exData ''Org1MSP'') = Inr [72, 105]
   \<and> returnvalue (runAttempt exCol (exLedger (Inr [72, 105])) exLocals
           ((exJob ''Org1MSP'')\<lparr> jobState := Active \<rparr>)) =
       Some \<lparr> transactionPayload = Some ''Hi'', transactionError = None \<rparr>
   \<and> jobState (runAttempt exCol (exLedger (Inr [72, 105])) exLocals
           ((exJob ''Org1MSP'')\<lparr> jobState := Active \<rparr>)) = Completed
   \<and> payloadSet (runAttempt exCol (exLedger (Inr [72, 105])) exLocals
           ((exJob ''Org1MSP'')\<lparr> jobState := Active \<rparr>))
   \<and> \<not> errorSet (runAttempt exCol (exLedger (Inr [72, 105])) exLocals
           ((exJob ''Org1MSP'')\<lparr> jobState := Active \<rparr>))"
proof -
  let ?active = "(exJob ''Org1MSP'')\<lparr> jobState := Active \<rparr>"
  let ?done = "runAttempt exCol (exLedger (Inr [72, 105])) exLocals ?active"
  note added = exJob_added [of "''Org1MSP''"]
  note r1 = ex_claimed [of "''Org1MSP''"]
  note r2 = ex_reach [where m = "''Org1MSP''" and ledger = "exLedger (Inr [72, 105])"]
  note d = ex_data_active [of "''Org1MSP''"]
  note a = ex_answer [of "Inr [72, 105]" 1 "''Org1MSP''"]
  have pre: "lookupContract exLocals ''Org1MSP'' = Some 1 \<and> data ?active = Some (exData ''Org1MSP'')
      \<and> ledgerAnswer (exLedger (Inr [72, 105])) 1 (exData ''Org1MSP'') = Inr [72, 105]"
    using ex_lookup1 d a by (intro conjI)
  have at: "jobState ?done = Completed
      \<and> returnvalue ?done = Some \<lparr> transactionPayload = Some (utf8Decode exCol [72, 105]),
                                   transactionError = None \<rparr>"
    using C3_amended [OF added r1, where c = 1 and d = "exData ''Org1MSP''"
        and ledger = "exLedger (Inr [72, 105])" and bytes' = "[72, 105]"] pre
    by blast
  then have rv: "returnvalue ?done =
      Some \<lparr> transactionPayload = Some ''Hi'', transactionError = None \<rparr>"
    by (simp only: ex_decode_Hi)
  from at have st: "jobState ?done = Completed"
    by (rule conjunct1)
  have l: "lookupContract exLocals ''Org1MSP'' \<noteq> None"
    by (simp add: ex_lookup1)
  note fin = C3_amended [OF added r2, where c = 1 and d = "exData ''Org1MSP''"
        and ledger = "exLedger (Inr [72, 105])" and bytes' = "[72, 105]"]
  from fin have nb: "\<not> (payloadSet ?done \<and> errorSet ?done)"
    by (rule conjunct1)
  from fin st l have one: "payloadSet ?done \<noteq> errorSet ?done"
    by blast
  have p: "payloadSet ?done"
    by (simp add: payloadSet_def rv)
  with nb have e: "\<not> errorSet ?done"
    by blast
  from added r1 r2 ex_lookup1 d a rv st p e show ?thesis
    by (intro conjI)
qed

text \<open>
  Claim C3 as stated asks for exactly one field in every terminal state. The job
  enqueued for an organisation without a contract is terminal after its first attempt,
  and neither field is set.
\<close>

theorem C3_counterexample:
  "addTransactionJob exQueue ''Org3MSP'' ''Transfer'' True [''alice'', ''bob'', ''10''] =
     (exQueue\<lparr> jobs := [exJob ''Org3MSP''], jobCounter := 1 \<rparr>, exJob ''Org3MSP'', Inr ''1'')
   \<and> (jobStep exCol exLocals)\<^sup>*\<^sup>* (exJob ''Org3MSP'')
        (runAttempt exCol (exLedger (Inr [72, 105])) exLocals
           ((exJob ''Org3MSP'')\<lparr> jobState := Active \<rparr>))
   \<and> terminal (runAttempt exCol (exLedger (Inr [72, 105])) exLocals
           ((exJob ''Org3MSP'')\<lparr> jobState := Active \<rparr>))
   \<and> \<not> payloadSet (runAttempt exCol (exLedger (Inr [72, 105])) exLocals
           ((exJob ''Org3MSP'')\<lparr> jobState := Active \<rparr>))
   \<and> \<not> errorSet (runAttempt exCol (exLedger (Inr [72, 105])) exLocals
           ((exJob ''Org3MSP'')\<lparr> jobState := Active \<rparr>))"
proof -
  have t: "terminal (runAttempt exCol (exLedger (Inr [72, 105])) exLocals
           ((exJob ''Org3MSP'')\<lparr> jobState := Active \<rparr>))"
    by (simp add: ex_attempt_nocontract terminal_def)
  have p: "\<not> payloadSet (runAttempt exCol (exLedger (Inr [72, 105])) exLocals
           ((exJob ''Org3MSP'')\<lparr> jobState := Active \<rparr>))"
    by (simp add: ex_attempt_nocontract payloadSet_def)
  have e: "\<not> errorSet (runAttempt exCol (exLedger (Inr [72, 105])) exLocals
           ((exJob ''Org3MSP'')\<lparr> jobState := Active \<rparr>))"
    by (simp add: ex_attempt_nocontract errorSet_def)
  from exJob_added [of "''Org3MSP''"]
    ex_reach [where m = "''Org3MSP''" and ledger = "exLedger (Inr [72, 105])"] t p e
  show ?thesis
    by (intro conjI)
qed

section \<open>Tenant isolation on reads\<close>

text \<open>
  Claim C4. When the queue has no job under the id \<open>j\<close>, or has one whose
  \<open>data.mspId\<close> is not \<open>t\<close>, \<open>getJob(t, queue, j)\<close> throws
  \<open>JobNotFoundError\<close> with the message \<open>Job j not found\<close> and the id \<open>j\<close>: the
  same error in both cases, so the caller cannot tell them apart. \<open>getAllJobs(t,
  queue)\<close> returns the summaries of the jobs of the queue whose \<open>data.mspId\<close> is
  \<open>t\<close>, and of no other job.
\<close>

theorem C4_tenant_isolation:
  assumes "queue_getJob q j = None
         \<or> (\<exists>job. queue_getJob q j = Some job \<and> map_option mspId (data job) \<noteq> Some t)"
  shows "getJob t q j = Inl (JobNotFoundError (''Job '' @ j @ '' not found'') j)
       \<and> getAllJobs t q =
           map getJobSummary (filter (\<lambda>job. map_option mspId (data job) = Some t) (jobs q))"
proof -
  have g: "getJob t q j = Inl (JobNotFoundError (''Job '' @ j @ '' not found'') j)"
    using assms
  proof
    assume "queue_getJob q j = None"
    then show ?thesis
      by (simp add: getJob_def jobNotFound_def)
  next
    assume "\<exists>job. queue_getJob q j = Some job \<and> map_option mspId (data job) \<noteq> Some t"
    then obtain job where "queue_getJob q j = Some job"
      and "map_option mspId (data job) \<noteq> Some t"
      by blast
    then show ?thesis
      by (cases "data job") (simp_all add: getJob_def jobNotFound_def)
  qed
  have a: "getAllJobs t q =
           map getJobSummary (filter (\<lambda>job. map_option mspId (data job) = Some t) (jobs q))"
    by (simp add: getAllJobs_def Let_def queue_getJobs_all tenant_filter)
  from g a show ?thesis
    by (intro conjI)
qed

text \<open>
  Claim C4 on the queue with a job of each organisation: the first organisation gets
  the same error for the id of the other organisation's job and for an id that is not
  in the queue, and lists only its own job.
\<close>

theorem C4_witness:
  "(queue_getJob exQueue2 ''2'' = None
     \<or> (\<exists>job. queue_getJob exQueue2 ''2'' = Some job
            \<and> map_option mspId (data job) \<noteq> Some ''Org1MSP''))
   \<and> getJob ''Org1MSP'' exQueue2 ''2'' = Inl (JobNotFoundError ''Job 2 not found'' ''2'')
   \<and> getJob ''Org1MSP'' exQueue2 ''7'' = Inl (JobNotFoundError ''Job 7 not found'' ''7'')
   \<and> getAllJobs ''Org1MSP'' exQueue2 = [getJobSummary (exJob ''Org1MSP'')]"
proof -
  have h: "queue_getJob exQueue2 ''2'' = None
     \<or> (\<exists>job. queue_getJob exQueue2 ''2'' = Some job
            \<and> map_option mspId (data job) \<noteq> Some ''Org1MSP'')"
    by (simp add: ex_getJob2 exJob_def exData_def)
  have h7: "queue_getJob exQueue2 ''7'' = None
     \<or> (\<exists>job. queue_getJob exQueue2 ''7'' = Some job
            \<and> map_option mspId (data job) \<noteq> Some ''Org1MSP'')"
    by (simp add: queue_getJob_def exQueue2_def exJob_def)
  note r = C4_tenant_isolation [OF h]
  from r have r1: "getJob ''Org1MSP'' exQueue2 ''2'' =
      Inl (JobNotFoundError ''Job 2 not found'' ''2'')"
    by simp
  from C4_tenant_isolation [OF h7] have r7: "getJob ''Org1MSP'' exQueue2 ''7'' =
      Inl (JobNotFoundError ''Job 7 not found'' ''7'')"
    by simp
  from r have "getAllJobs ''Org1MSP'' exQueue2 =
     map getJobSummary (filter (\<lambda>job. map_option mspId (data job) = Some ''Org1MSP'')
       (jobs exQueue2))"
    by (rule conjunct2)
  then have r2: "getAllJobs ''Org1MSP'' exQueue2 = [getJobSummary (exJob ''Org1MSP'')]"
    by (simp add: exQueue2_def exJob_def exData_def)
  from h r1 r7 r2 show ?thesis
    by (intro conjI)
qed

section \<open>Jobs without a contract\<close>

text \<open>
  Claim C6. When no contract is resolvable for the MSP id of the job, the processor
  returns the empty result (neither \<open>transactionPayload\<close> nor \<open>transactionError\<close>)
  on that attempt, makes no call to the ledger, and the job is completed by that
  attempt: it takes no further step, so it is not retried.
\<close>

theorem C6_no_contract:
  assumes "data job = Some d" and "lookupContract locals (mspId d) = None"
  shows "outcome (processTransactionJob col ledger locals job) =
           Inr \<lparr> transactionPayload = None, transactionError = None \<rparr>
       \<and> filter isLedgerCall (effects (processTransactionJob col ledger locals job)) = []
       \<and> runAttempt col ledger locals job =
           job\<lparr> attemptsMade := attemptsMade job + 1,
                returnvalue := Some \<lparr> transactionPayload = None, transactionError = None \<rparr>,
                jobState := Completed \<rparr>
       \<and> (\<forall>job'. \<not> jobStep col locals (runAttempt col ledger locals job) job')"
proof -
  note p = outcome_nocontract [OF assms, of col ledger]
  have out: "outcome (processTransactionJob col ledger locals job) =
           Inr \<lparr> transactionPayload = None, transactionError = None \<rparr>"
    by (simp add: p)
  have eff: "filter isLedgerCall (effects (processTransactionJob col ledger locals job)) = []"
    by (simp add: p)
  have run: "runAttempt col ledger locals job =
           job\<lparr> attemptsMade := attemptsMade job + 1,
                returnvalue := Some \<lparr> transactionPayload = None, transactionError = None \<rparr>,
                jobState := Completed \<rparr>"
    by (simp add: runAttempt_def Let_def p finishJob_def)
  have "jobState (runAttempt col ledger locals job) = Completed"
    by (simp add: run)
  then have "\<forall>job'. \<not> jobStep col locals (runAttempt col ledger locals job) job'"
    by (simp add: no_step_Completed)
  with out eff run show ?thesis by (intro conjI)
qed

text \<open>
  Claim C6 on the job of an organisation that has no contract in the concrete
  deployment.
\<close>

theorem C6_witness:
  "data ((exJob ''Org3MSP'')\<lparr> jobState := Active \<rparr>) = Some (exData ''Org3MSP'')
   \<and> lookupContract exLocals (mspId (exData ''Org3MSP'')) = None
   \<and> outcome (processTransactionJob exCol (exLedger (Inr [72, 105])) exLocals
        ((exJob ''Org3MSP'')\<lparr> jobState := Active \<rparr>)) =
        Inr \<lparr> transactionPayload = None, transactionError = None \<rparr>
   \<and> filter isLedgerCall (effects (processTransactionJob exCol (exLedger (Inr [72, 105]))
        exLocals ((exJob ''Org3MSP'')\<lparr> jobState := Active \<rparr>))) = []
   \<and> jobState (runAttempt exCol (exLedger (Inr [72, 105])) exLocals
        ((exJob ''Org3MSP'')\<lparr> jobState := Active \<rparr>)) = Completed"
proof -
  note r = C6_no_contract [OF ex_data_active ex_lookup_data3, of exCol "exLedger (Inr [72, 105])"]
  from r have r1: "outcome (processTransactionJob exCol (exLedger (Inr [72, 105])) exLocals
        ((exJob ''Org3MSP'')\<lparr> jobState := Active \<rparr>)) =
        Inr \<lparr> transactionPayload = None, transactionError = None \<rparr>"
    by (rule conjunct1)
  from r have r2: "filter isLedgerCall (effects (processTransactionJob exCol
        (exLedger (Inr [72, 105])) exLocals ((exJob ''Org3MSP'')\<lparr> jobState := Active \<rparr>))) = []"
    by (elim conjE)
  from r have "runAttempt exCol (exLedger (Inr [72, 105])) exLocals
        ((exJob ''Org3MSP'')\<lparr> jobState := Active \<rparr>) =
      ((exJob ''Org3MSP'')\<lparr> jobState := Active \<rparr>)
         \<lparr> attemptsMade := attemptsMade ((exJob ''Org3MSP'')\<lparr> jobState := Active \<rparr>) + 1,
           returnvalue := Some \<lparr> transactionPayload = None, transactionError = None \<rparr>,
           jobState := Completed \<rparr>"
    by (elim conjE)
  then have r3: "jobState (runAttempt exCol (exLedger (Inr [72, 105])) exLocals
        ((exJob ''Org3MSP'')\<lparr> jobState := Active \<rparr>)) = Completed"
    by simp
  from ex_data_active ex_lookup_data3 r1 r2 r3 show ?thesis
    by (intro conjI)
qed

section \<open>The attempt limit\<close>

text \<open>
  Claim C7, as the code has it. \<open>initJobQueue\<close> sets the configured limit
  \<open>config.submitJobAttempts\<close> as the \<open>attempts\<close> option of the queue, and every
  job enqueued by \<open>addTransactionJob\<close> has, at every point of its life, made at most
  that many attempts when the limit is at least one, and at most one attempt when the
  limit is below one: a job is attempted once whatever the limit.
\<close>

theorem C7_amended:
  assumes "defaultJobOptions q = defaultJobOptions (initJobQueue cfg)"
    and "addTransactionJob q m tn s args = (q', job0, r)"
    and "(jobStep col locals)\<^sup>*\<^sup>* job0 job"
  shows "int (attemptsMade job) \<le> max 1 (submitJobAttempts cfg)
       \<and> (0 < submitJobAttempts cfg \<longrightarrow> int (attemptsMade job) \<le> submitJobAttempts cfg)"
proof -
  have o: "attempts (opts job0) = submitJobAttempts cfg"
    by (simp add: added_job [OF assms(2)] assms(1) initJobQueue_def)
  have "attemptsInv job0"
    by (simp add: attemptsInv_def terminal_def added_job [OF assms(2)])
  then have "attemptsInv job"
    using assms(3) by (simp add: attemptsInv_reachable)
  then have "int (attemptsMade job) \<le> max 1 (attempts (opts job))"
    by (rule attemptsInv_le)
  moreover have "opts job = opts job0"
    using assms(3) by (rule reachable_opts)
  ultimately have "int (attemptsMade job) \<le> max 1 (submitJobAttempts cfg)"
    using o by simp
  then show ?thesis by auto
qed

text \<open>
  The amended claim on a job of the concrete deployment, with the default limit of
  five, whose every attempt times out: it has made five attempts when it fails.
\<close>

theorem C7_witness:
  "defaultJobOptions exQueue = defaultJobOptions (initJobQueue (defaultConfig ''submit''))
   \<and> addTransactionJob exQueue ''Org1MSP'' ''Transfer'' True [''alice'', ''bob'', ''10''] =
     (exQueue\<lparr> jobs := [exJob ''Org1MSP''], jobCounter := 1 \<rparr>, exJob ''Org1MSP'', Inr ''1'')
   \<and> (jobStep exCol exLocals)\<^sup>*\<^sup>* (exJob ''Org1MSP'')
        (runJob exCol exLocals (replicate 7 (exLedger (Inl ''timeout''))) (exJob ''Org1MSP''))
   \<and> 0 < submitJobAttempts (defaultConfig ''submit'')
   \<and> attemptsMade (runJob exCol exLocals (replicate 7 (exLedger (Inl ''timeout'')))
        (exJob ''Org1MSP'')) = 5
   \<and> int (attemptsMade (runJob exCol exLocals (replicate 7 (exLedger (Inl ''timeout'')))
        (exJob ''Org1MSP''))) \<le> submitJobAttempts (defaultConfig ''submit'')"
proof -
  have h1: "0 < submitJobAttempts (defaultConfig ''submit'')"
    by (simp add: ex_attempts)
  have h2: "defaultJobOptions exQueue = defaultJobOptions (initJobQueue (defaultConfig ''submit''))"
    by (simp add: exQueue_def)
  note h4 = runJob_reachable [where col = exCol and locals = exLocals
      and job = "exJob ''Org1MSP''" and ledgers = "replicate 7 (exLedger (Inl ''timeout''))"]
  note r = C7_amended [OF h2 exJob_added [of "''Org1MSP''"] h4, THEN conjunct2, rule_format, OF h1]
  have n: "attemptsMade (runJob exCol exLocals (replicate 7 (exLedger (Inl ''timeout'')))
        (exJob ''Org1MSP'')) = 5"
    by (simp only: scenario_D) simp
  from h2 exJob_added [of "''Org1MSP''"] h4 h1 n r show ?thesis
    by (intro conjI)
qed

text \<open>
  Claim C7 as stated bounds the attempts by the configured limit, whatever it is. With
  a configured limit of zero, the job enqueued in the queue that \<open>initJobQueue\<close> sets
  up is still attempted: after its first attempt, which times out, it has failed with
  one attempt made, more than the limit.
\<close>

theorem C7_counterexample:
  "submitJobAttempts exZeroConfig = 0
   \<and> addTransactionJob (initJobQueue exZeroConfig) ''Org1MSP'' ''Transfer'' True
       [''alice'', ''bob'', ''10''] =
     ((initJobQueue exZeroConfig)\<lparr> jobs := [exZeroJob], jobCounter := 1 \<rparr>, exZeroJob, Inr ''1'')
   \<and> (jobStep exCol exLocals)\<^sup>*\<^sup>* exZeroJob (exZeroJob\<lparr> attemptsMade := 1, jobState := Failed \<rparr>)
   \<and> \<not> int (attemptsMade (exZeroJob\<lparr> attemptsMade := 1, jobState := Failed \<rparr>))
          \<le> submitJobAttempts exZeroConfig"
proof -
  have n: "\<not> int (attemptsMade (exZeroJob\<lparr> attemptsMade := 1, jobState := Failed \<rparr>))
          \<le> submitJobAttempts exZeroConfig"
    by (simp add: ex_zero_attempts)
  from ex_zero_attempts exZeroJob_added ex_zero_reach n show ?thesis
    by (intro conjI)
qed

section \<open>Job summaries\<close>

text \<open>
  Claim C8. The summary of a job carries the state string of the job at the time of
  the call, and its \<open>result\<close> field is set if and only if the job is completed or
  failed; it is then the return value of the job.
\<close>

theorem C8_summary:
  "state_summary (getJobSummary job) = getState job
   \<and> getState job = stateName (jobState job)
   \<and> (result (getJobSummary job) \<noteq> None) = (isCompleted job \<or> isFailed job)
   \<and> (result (getJobSummary job) \<noteq> None) = (jobState job = Completed \<or> jobState job = Failed)
   \<and> result (getJobSummary job) =
       (if isCompleted job \<or> isFailed job then Some (returnvalue job) else None)"
  by (simp add: getJobSummary_def Let_def getState_def isCompleted_def isFailed_def)

text \<open>
  Claim C8 on a job of the concrete deployment, before its first attempt and after a
  successful one.
\<close>

theorem C8_witness:
  "state_summary (getJobSummary (exJob ''Org1MSP'')) = ''waiting''
   \<and> result (getJobSummary (exJob ''Org1MSP'')) = None
   \<and> state_summary (getJobSummary (runAttempt exCol (exLedger (Inr [72, 105])) exLocals
     ((exJob ''Org1MSP'')\<lparr> jobState := Active \<rparr>))) = ''completed''
   \<and> result (getJobSummary (runAttempt exCol (exLedger (Inr [72, 105])) exLocals
     ((exJob ''Org1MSP'')\<lparr> jobState := Active \<rparr>))) =
       Some (Some \<lparr> transactionPayload = Some ''Hi'', transactionError = None \<rparr>)"
proof -
  have w: "jobState (exJob ''Org1MSP'') = Waiting"
    by (simp add: exJob_def)
  note a = C8_summary [of "exJob ''Org1MSP''"]
  note b = C8_summary [of "runAttempt exCol (exLedger (Inr [72, 105])) exLocals
     ((exJob ''Org1MSP'')\<lparr> jobState := Active \<rparr>)"]
  from a w have a1: "state_summary (getJobSummary (exJob ''Org1MSP'')) = ''waiting''"
    by simp
  from a w have a2: "result (getJobSummary (exJob ''Org1MSP'')) = None"
    by (simp add: isCompleted_def isFailed_def)
  from b have b1: "state_summary (getJobSummary (runAttempt exCol (exLedger (Inr [72, 105]))
     exLocals ((exJob ''Org1MSP'')\<lparr> jobState := Active \<rparr>))) = ''completed''"
    by (simp add: ex_attempt_ok)
  from b have b2: "result (getJobSummary (runAttempt exCol (exLedger (Inr [72, 105])) exLocals
     ((exJob ''Org1MSP'')\<lparr> jobState := Active \<rparr>))) =
       Some (Some \<lparr> transactionPayload = Some ''Hi'', transactionError = None \<rparr>)"
    by (simp add: ex_attempt_ok isCompleted_def)
  from a1 a2 b1 b2 show ?thesis
    by (intro conjI)
qed

section \<open>Defaults of the configuration\<close>

text \<open>
  Claim C9. For every configuration, the queue that \<open>main\<close> sets up takes its
  attempt limit, its backoff type and delay and its two retention caps from the
  configuration, the jobs added to it carry these options, its worker takes its
  concurrency from the configuration, and the scheduler is started exactly when the
  configuration enables it. The defaults of the configuration are an attempt limit of
  5, a fixed backoff with a delay of 3000 ms, a concurrency of 5, retention caps of
  1000 completed and 1000 failed jobs, and the scheduler enabled; so these are the
  values of the queue, the worker and the scheduler under the default configuration.
\<close>

theorem C9_defaults_wired:
  "defaultJobOptions (jobQueue (main_jobQueue cfg)) =
     \<lparr> attempts = submitJobAttempts cfg,
       backoff = \<lparr> type_backoff = submitJobBackoffType cfg, delay = submitJobBackoffDelay cfg \<rparr>,
       removeOnComplete = maxCompletedSubmitJobs cfg,
       removeOnFail = maxFailedSubmitJobs cfg \<rparr>
   \<and> opts (fst (snd (addTransactionJob (jobQueue (main_jobQueue cfg)) m tn s args))) =
       defaultJobOptions (jobQueue (main_jobQueue cfg))
   \<and> concurrency (jobQueueWorker (main_jobQueue cfg)) = submitJobConcurrency cfg
   \<and> (jobQueueScheduler (main_jobQueue cfg) \<noteq> None) = submitJobQueueScheduler cfg
   \<and> submitJobAttempts (defaultConfig queueName') = 5
   \<and> submitJobBackoffType (defaultConfig queueName') = Fixed
   \<and> submitJobBackoffDelay (defaultConfig queueName') = 3000
   \<and> submitJobConcurrency (defaultConfig queueName') = 5
   \<and> maxCompletedSubmitJobs (defaultConfig queueName') = 1000
   \<and> maxFailedSubmitJobs (defaultConfig queueName') = 1000
   \<and> submitJobQueueScheduler (defaultConfig queueName') = True
   \<and> defaultJobOptions (jobQueue (main_jobQueue (defaultConfig queueName'))) =
     \<lparr> attempts = 5,
       backoff = \<lparr> type_backoff = Fixed, delay = 3000 \<rparr>,
       removeOnComplete = 1000,
       removeOnFail = 1000 \<rparr>
   \<and> concurrency (jobQueueWorker (main_jobQueue (defaultConfig queueName'))) = 5
   \<and> jobQueueScheduler (main_jobQueue (defaultConfig queueName')) =
       Some (initJobQueueScheduler (defaultConfig queueName'))"
proof -
  have w1: "defaultJobOptions (jobQueue (main_jobQueue cfg)) =
     \<lparr> attempts = submitJobAttempts cfg,
       backoff = \<lparr> type_backoff = submitJobBackoffType cfg, delay = submitJobBackoffDelay cfg \<rparr>,
       removeOnComplete = maxCompletedSubmitJobs cfg,
       removeOnFail = maxFailedSubmitJobs cfg \<rparr>" for cfg
    by (simp add: main_jobQueue_def initJobQueue_def)
  have w2: "opts (fst (snd (addTransactionJob (jobQueue (main_jobQueue cfg)) m tn s args))) =
       defaultJobOptions (jobQueue (main_jobQueue cfg))"
    by (simp add: addTransactionJob_def queue_add_def Let_def)
  have w3: "concurrency (jobQueueWorker (main_jobQueue cfg)) = submitJobConcurrency cfg" for cfg
    by (simp add: main_jobQueue_def initJobQueueWorker_def)
  have w4: "(jobQueueScheduler (main_jobQueue cfg) \<noteq> None) = submitJobQueueScheduler cfg"
    by (simp add: main_jobQueue_def)
  have d: "submitJobAttempts (defaultConfig queueName') = 5"
    "submitJobBackoffType (defaultConfig queueName') = Fixed"
    "submitJobBackoffDelay (defaultConfig queueName') = 3000"
    "submitJobConcurrency (defaultConfig queueName') = 5"
    "maxCompletedSubmitJobs (defaultConfig queueName') = 1000"
    "maxFailedSubmitJobs (defaultConfig queueName') = 1000"
    "submitJobQueueScheduler (defaultConfig queueName') = True"
    by (simp_all add: defaultConfig_def)
  have i1: "defaultJobOptions (jobQueue (main_jobQueue (defaultConfig queueName'))) =
     \<lparr> attempts = 5,
       backoff = \<lparr> type_backoff = Fixed, delay = 3000 \<rparr>,
       removeOnComplete = 1000,
       removeOnFail = 1000 \<rparr>"
    by (simp only: w1 d)
  have i2: "concurrency (jobQueueWorker (main_jobQueue (defaultConfig queueName'))) = 5"
    by (simp only: w3 d)
  have i3: "jobQueueScheduler (main_jobQueue (defaultConfig queueName')) =
       Some (initJobQueueScheduler (defaultConfig queueName'))"
    by (simp add: main_jobQueue_def d)
  from w1 w2 w3 w4 d i1 i2 i3 show ?thesis
    by (intro conjI)
qed

section \<open>The data of a job is never updated\<close>

text \<open>
  Claim C10. A job enqueued by \<open>addTransactionJob\<close> has, when it is added and at
  every later point of its life, the data it was added with: no transaction id
  (\<open>transactionIds\<close> is the empty list) and no saved transaction state.
\<close>

theorem C10_data_never_updated:
  assumes "addTransactionJob q m tn s args = (q', job0, r)"
    and "(jobStep col locals)\<^sup>*\<^sup>* job0 job"
  shows "data job = Some \<lparr> mspId = m, transactionName = tn, submit = s,
               transactionArgs = args, transactionState = None, transactionIds = [] \<rparr>
       \<and> map_option transactionIds (data job) = Some []
       \<and> map_option transactionState (data job) = Some None"
proof -
  have "data job = data job0"
    using assms(2) by (rule reachable_data)
  then show ?thesis
    by (simp add: added_data [OF assms(1)])
qed

text \<open>
  Claim C10 on a job of the concrete deployment after a first attempt that failed with
  a retryable error.
\<close>

theorem C10_witness:
  "addTransactionJob exQueue ''Org1MSP'' ''Transfer'' True [''alice'', ''bob'', ''10''] =
     (exQueue\<lparr> jobs := [exJob ''Org1MSP''], jobCounter := 1 \<rparr>, exJob ''Org1MSP'', Inr ''1'')
   \<and> (jobStep exCol exLocals)\<^sup>*\<^sup>* (exJob ''Org1MSP'')
        (runAttempt exCol (exLedger (Inl ''timeout'')) exLocals
           ((exJob ''Org1MSP'')\<lparr> jobState := Active \<rparr>))
   \<and> map_option transactionIds (data (runAttempt exCol (exLedger (Inl ''timeout'')) exLocals
           ((exJob ''Org1MSP'')\<lparr> jobState := Active \<rparr>))) = Some []
   \<and> map_option transactionState (data (runAttempt exCol (exLedger (Inl ''timeout''))
           exLocals ((exJob ''Org1MSP'')\<lparr> jobState := Active \<rparr>))) = Some None"
proof -
  note r = C10_data_never_updated [OF exJob_added [of "''Org1MSP''"]
      ex_reach [where m = "''Org1MSP''" and ledger = "exLedger (Inl ''timeout'')"]]
  from r have r1: "map_option transactionIds (data (runAttempt exCol
      (exLedger (Inl ''timeout'')) exLocals
           ((exJob ''Org1MSP'')\<lparr> jobState := Active \<rparr>))) = Some []"
    by (elim conjE)
  from r have r2: "map_option transactionState (data (runAttempt exCol
      (exLedger (Inl ''timeout'')) exLocals
           ((exJob ''Org1MSP'')\<lparr> jobState := Active \<rparr>))) = Some None"
    by (elim conjE)
  from exJob_added [of "''Org1MSP''"] ex_reach [where m = "''Org1MSP''" and ledger = "exLedger (Inl ''timeout'')"]
    r1 r2 show ?thesis
    by (intro conjI)
qed

end
